theory Spec2Isabelle
  imports Main
begin

section \<open>Strings, as Python's \<^verbatim>\<open>str\<close> operations use them\<close>

text \<open>
  A \<^typ>\<open>string\<close> is a sequence of code points; one \<^typ>\<open>char\<close> stands for one code
  point below 256, so \<^const>\<open>length\<close> is Python's \<^verbatim>\<open>len\<close>.
\<close>

definition is_space :: "char \<Rightarrow> bool" where
  \<comment> \<open>\<^verbatim>\<open>str.isspace\<close> on the code points below 256: TAB, LF, VT, FF, CR, FS, GS, RS, US,
      SPACE, NEL and NBSP.\<close>
  "is_space c \<longleftrightarrow> (let n = of_char c :: nat in
     (9 \<le> n \<and> n \<le> 13) \<or> (28 \<le> n \<and> n \<le> 32) \<or> n = 133 \<or> n = 160)"

fun split_ws :: "string \<Rightarrow> string \<Rightarrow> string list" where
  "split_ws cur [] = (if cur = [] then [] else [cur])"
| "split_ws cur (c # cs) =
     (if is_space c then (if cur = [] then split_ws [] cs else cur # split_ws [] cs)
      else split_ws (cur @ [c]) cs)"

definition py_split :: "string \<Rightarrow> string list" where
  \<comment> \<open>\<^verbatim>\<open>text.split()\<close>: the maximal runs of non-whitespace, in order.\<close>
  "py_split text = split_ws [] text"

fun py_join :: "string \<Rightarrow> string list \<Rightarrow> string" where
  \<comment> \<open>\<^verbatim>\<open>sep.join(xs)\<close>\<close>
  "py_join sep [] = []"
| "py_join sep [x] = x"
| "py_join sep (x # y # ys) = x @ sep @ py_join sep (y # ys)"

section \<open>\<^verbatim>\<open>A2AServer._chunk_text\<close>\<close>

text \<open>
  \<^verbatim>\<open>
  words = text.split(); chunks = []; current_chunk = []
  for word in words:
      current_chunk.append(word)
      if len(" ".join(current_chunk)) >= chunk_size:
          chunks.append(" ".join(current_chunk)); current_chunk = []
  if current_chunk: chunks.append(" ".join(current_chunk))
  return chunks
  \<close>
  The loop is a recursion over the remaining words that carries \<^verbatim>\<open>chunks\<close> and
  \<^verbatim>\<open>current_chunk\<close>.
\<close>

fun chunk_loop :: "int \<Rightarrow> string list \<Rightarrow> string list \<Rightarrow> string list \<Rightarrow> string list" where
  "chunk_loop chunk_size [] chunks current_chunk =
     (if current_chunk \<noteq> [] then chunks @ [py_join '' '' current_chunk] else chunks)"
| "chunk_loop chunk_size (word # words) chunks current_chunk =
     (let current_chunk = current_chunk @ [word] in
      if int (length (py_join '' '' current_chunk)) \<ge> chunk_size
      then chunk_loop chunk_size words (chunks @ [py_join '' '' current_chunk]) []
      else chunk_loop chunk_size words chunks current_chunk)"

definition chunk_text :: "string \<Rightarrow> int \<Rightarrow> string list" where
  "chunk_text text chunk_size = chunk_loop chunk_size (py_split text) [] []"

text \<open>
  The grouping of the words that \<^const>\<open>chunk_loop\<close> makes, before the groups are joined:
  it runs the same loop and keeps each \<^verbatim>\<open>current_chunk\<close> as a list of words.
\<close>

fun group_loop :: "int \<Rightarrow> string list \<Rightarrow> string list \<Rightarrow> string list list" where
  "group_loop chunk_size [] current_chunk = (if current_chunk \<noteq> [] then [current_chunk] else [])"
| "group_loop chunk_size (word # words) current_chunk =
     (if int (length (py_join '' '' (current_chunk @ [word]))) \<ge> chunk_size
      then (current_chunk @ [word]) # group_loop chunk_size words []
      else group_loop chunk_size words (current_chunk @ [word]))"

section \<open>JSON values and the Python operations the handlers apply to them\<close>

text \<open>
  Request bodies, messages, tasks and cards are the values \<^verbatim>\<open>json.loads\<close> produces and
  \<^verbatim>\<open>json.dumps\<close> consumes. A \<^verbatim>\<open>dict\<close> is an association list in insertion order with
  distinct keys; numbers are integers.
\<close>

datatype json =
    JNull
  | JBool bool
  | JNum int
  | JStr string
  | JArr "json list"
  | JObj "(string \<times> json) list"

datatype py_error = AttributeError | TypeError | KeyError | IndexError

definition bind :: "py_error + 'a \<Rightarrow> ('a \<Rightarrow> py_error + 'b) \<Rightarrow> py_error + 'b" where
  \<comment> \<open>sequencing: an exception raised by the first statement skips the rest\<close>
  "bind m f = (case m of Inl e \<Rightarrow> Inl e | Inr v \<Rightarrow> f v)"

fun truthy :: "json \<Rightarrow> bool" where
  \<comment> \<open>the truth value Python's \<^verbatim>\<open>not x\<close> and \<^verbatim>\<open>if x\<close> test\<close>
  "truthy JNull = False"
| "truthy (JBool b) = b"
| "truthy (JNum n) = (n \<noteq> 0)"
| "truthy (JStr s) = (s \<noteq> [])"
| "truthy (JArr xs) = (xs \<noteq> [])"
| "truthy (JObj kvs) = (kvs \<noteq> [])"

fun py_get :: "json \<Rightarrow> string \<Rightarrow> json \<Rightarrow> py_error + json" where
  \<comment> \<open>\<^verbatim>\<open>x.get(key, default)\<close>; only a dict has \<^verbatim>\<open>get\<close>\<close>
  "py_get (JObj kvs) key dflt = Inr (case map_of kvs key of None \<Rightarrow> dflt | Some v \<Rightarrow> v)"
| "py_get _ key dflt = Inl AttributeError"

fun py_getitem :: "json \<Rightarrow> string \<Rightarrow> py_error + json" where
  \<comment> \<open>\<^verbatim>\<open>x[key]\<close> for a string key\<close>
  "py_getitem (JObj kvs) key = (case map_of kvs key of None \<Rightarrow> Inl KeyError | Some v \<Rightarrow> Inr v)"
| "py_getitem _ key = Inl TypeError"

fun dict_set :: "(string \<times> json) list \<Rightarrow> string \<Rightarrow> json \<Rightarrow> (string \<times> json) list" where
  \<comment> \<open>\<^verbatim>\<open>d[key] = v\<close>: an existing key keeps its position, a new key goes last\<close>
  "dict_set [] key v = [(key, v)]"
| "dict_set ((k, w) # kvs) key v =
     (if k = key then (k, v) # kvs else (k, w) # dict_set kvs key v)"

fun py_setitem :: "json \<Rightarrow> string \<Rightarrow> json \<Rightarrow> py_error + json" where
  "py_setitem (JObj kvs) key v = Inr (JObj (dict_set kvs key v))"
| "py_setitem _ key v = Inl TypeError"

fun py_len :: "json \<Rightarrow> py_error + nat" where
  "py_len (JArr xs) = Inr (length xs)"
| "py_len (JStr s) = Inr (length s)"
| "py_len (JObj kvs) = Inr (length kvs)"
| "py_len _ = Inl TypeError"

fun py_iter :: "json \<Rightarrow> py_error + json list" where
  \<comment> \<open>the items a \<^verbatim>\<open>for\<close> loop visits: list elements, the characters of a string, the keys
      of a dict; anything else is not iterable\<close>
  "py_iter (JArr xs) = Inr xs"
| "py_iter (JStr s) = Inr (map (\<lambda>c. JStr [c]) s)"
| "py_iter (JObj kvs) = Inr (map (\<lambda>kv. JStr (fst kv)) kvs)"
| "py_iter _ = Inl TypeError"

fun py_index :: "json \<Rightarrow> nat \<Rightarrow> py_error + json" where
  \<comment> \<open>\<^verbatim>\<open>x[i]\<close> for an index \<^verbatim>\<open>i >= 0\<close>\<close>
  "py_index (JArr xs) i = (if i < length xs then Inr (xs ! i) else Inl IndexError)"
| "py_index (JStr s) i = (if i < length s then Inr (JStr [s ! i]) else Inl IndexError)"
| "py_index (JObj kvs) i = Inl KeyError"
| "py_index _ i = Inl TypeError"

subsection \<open>\<^verbatim>\<open>str()\<close> and \<^verbatim>\<open>repr()\<close>, as f-strings apply them\<close>

definition digit_char :: "nat \<Rightarrow> char" where
  "digit_char d = ''0123456789abcdef'' ! d"

fun str_nat :: "nat \<Rightarrow> string" where
  "str_nat n = (if n < 10 then [digit_char n] else str_nat (n div 10) @ [digit_char (n mod 10)])"

declare str_nat.simps [simp del]

definition str_int :: "int \<Rightarrow> string" where
  "str_int i = (if i < 0 then CHR ''-'' # str_nat (nat (- i)) else str_nat (nat i))"

definition is_printable :: "char \<Rightarrow> bool" where
  \<comment> \<open>\<^verbatim>\<open>str.isprintable\<close> on the code points below 256\<close>
  "is_printable c \<longleftrightarrow> (let n = of_char c :: nat in
     (32 \<le> n \<and> n \<le> 126) \<or> (161 \<le> n \<and> n \<noteq> 173))"

definition repr_char :: "char \<Rightarrow> char \<Rightarrow> string" where
  "repr_char quote c =
     (if c = CHR 0x5C then [CHR 0x5C, CHR 0x5C]
      else if c = quote then [CHR 0x5C, quote]
      else if c = CHR 0x09 then [CHR 0x5C, CHR ''t'']
      else if c = CHR 0x0A then [CHR 0x5C, CHR ''n'']
      else if c = CHR 0x0D then [CHR 0x5C, CHR ''r'']
      else if is_printable c then [c]
      else [CHR 0x5C, CHR ''x'', digit_char (of_char c div 16), digit_char (of_char c mod 16)])"

definition repr_str :: "string \<Rightarrow> string" where
  \<comment> \<open>single quotes, unless the string has a single quote and no double quote\<close>
  "repr_str s =
     (let quote = (if CHR 0x27 \<in> set s \<and> CHR 0x22 \<notin> set s then CHR 0x22 else CHR 0x27)
      in [quote] @ concat (map (repr_char quote) s) @ [quote])"

fun py_repr :: "json \<Rightarrow> string" where
  "py_repr JNull = ''None''"
| "py_repr (JBool b) = (if b then ''True'' else ''False'')"
| "py_repr (JNum n) = str_int n"
| "py_repr (JStr s) = repr_str s"
| "py_repr (JArr xs) = ''['' @ py_join '', '' (map py_repr xs) @ '']''"
| "py_repr (JObj kvs) =
     ''{'' @ py_join '', '' (map (\<lambda>(k, v). repr_str k @ '': '' @ py_repr v) kvs) @ ''}''"

fun py_str :: "json \<Rightarrow> string" where
  \<comment> \<open>\<^verbatim>\<open>f"{x}"\<close>: a string as it is, anything else as its \<^verbatim>\<open>repr\<close>\<close>
  "py_str (JStr s) = s"
| "py_str x = py_repr x"

definition str_opt :: "string option \<Rightarrow> string" where
  \<comment> \<open>\<^verbatim>\<open>f"{x}"\<close> for an optional string\<close>
  "str_opt x = (case x of None \<Rightarrow> ''None'' | Some s \<Rightarrow> s)"

definition py_lower_char :: "char \<Rightarrow> char" where
  \<comment> \<open>\<^verbatim>\<open>str.lower\<close> on the code points below 256: A-Z and the Latin-1 capitals move up by
      32, which sets bit 5\<close>
  "py_lower_char c = (let n = of_char c :: nat in
     if (65 \<le> n \<and> n \<le> 90) \<or> (192 \<le> n \<and> n \<le> 222 \<and> n \<noteq> 215)
     then (case c of Char b0 b1 b2 b3 b4 b5 b6 b7 \<Rightarrow> Char b0 b1 b2 b3 b4 True b6 b7)
     else c)"

definition py_lower :: "string \<Rightarrow> string" where
  "py_lower s = map py_lower_char s"

fun py_in :: "string \<Rightarrow> string \<Rightarrow> bool" where
  \<comment> \<open>\<^verbatim>\<open>sub in s\<close> for strings\<close>
  "py_in sub [] = (sub = [])"
| "py_in sub (c # cs) = (take (length sub) (c # cs) = sub \<or> py_in sub cs)"

section \<open>The registry, the task store and requests\<close>

text \<open>
  An agent is the \<^verbatim>\<open>dict\<close> the registry holds. The keys the server and the factory read are
  fields, absent when \<^const>\<open>None\<close>, with the types \<^verbatim>\<open>AgentFactory.create_agent\<close> declares;
  \<^verbatim>\<open>examples\<close> comes from caller-supplied metadata and stays a JSON value; every other key
  is in \<open>a_extra\<close>.
\<close>

record agent =
  a_id :: "string option"
  a_name :: "string option"
  a_description :: "string option"
  a_skills :: "string list option"
  a_version :: "string option"
  a_status :: "string option"
  a_created_at :: "string option"
  a_updated_at :: "string option"
  a_examples :: "json option"
  a2a_card_path :: "string option"
  a_extra :: "(string \<times> json) list"

definition agent_truthy :: "agent \<Rightarrow> bool" where
  \<comment> \<open>a dict is true when it has a key\<close>
  "agent_truthy a \<longleftrightarrow>
     a_id a \<noteq> None \<or> a_name a \<noteq> None \<or> a_description a \<noteq> None \<or> a_skills a \<noteq> None
     \<or> a_version a \<noteq> None \<or> a_status a \<noteq> None \<or> a_created_at a \<noteq> None
     \<or> a_updated_at a \<noteq> None \<or> a_examples a \<noteq> None \<or> a2a_card_path a \<noteq> None
     \<or> a_extra a \<noteq> []"

definition get_or :: "'a option \<Rightarrow> 'a \<Rightarrow> 'a" where
  \<comment> \<open>\<^verbatim>\<open>agent.get(key, default)\<close> on a field\<close>
  "get_or x dflt = (case x of None \<Rightarrow> dflt | Some v \<Rightarrow> v)"

text \<open>
  \<^verbatim>\<open>self.tasks\<close> is a dict from task ids to task objects. A task id is whatever JSON value the
  client sent: lists and dicts are unhashable, and \<^verbatim>\<open>True\<close> is the same key as \<^verbatim>\<open>1\<close>. The
  dict holds references: the object a streaming generator keeps mutating is the object
  \<^verbatim>\<open>tasks/cancel\<close> finds under the id, until another request stores a new object there.
\<close>

fun hashable :: "json \<Rightarrow> bool" where
  "hashable (JArr xs) = False"
| "hashable (JObj kvs) = False"
| "hashable _ = True"

fun key_norm :: "json \<Rightarrow> json" where
  "key_norm (JBool b) = JNum (if b then 1 else 0)"
| "key_norm k = k"

fun store_get :: "(json \<times> nat) list \<Rightarrow> json \<Rightarrow> nat option" where
  "store_get [] key = None"
| "store_get ((k, r) # kvs) key =
     (if key_norm k = key_norm key then Some r else store_get kvs key)"

fun store_set :: "(json \<times> nat) list \<Rightarrow> json \<Rightarrow> nat \<Rightarrow> (json \<times> nat) list" where
  "store_set [] key r = [(key, r)]"
| "store_set ((k, r') # kvs) key r =
     (if key_norm k = key_norm key then (k, r) # kvs else (k, r') # store_set kvs key r)"

record server =
  config_api_key :: string                \<comment> \<open>\<^verbatim>\<open>Config.API_KEY\<close>\<close>
  registry :: "(string \<times> agent) list"     \<comment> \<open>\<^verbatim>\<open>self.registry.agents\<close>\<close>
  tasks :: "(json \<times> nat) list"            \<comment> \<open>\<^verbatim>\<open>self.tasks\<close>: id to reference\<close>
  heap :: "nat \<Rightarrow> json"                    \<comment> \<open>the task object at each reference\<close>
  next_ref :: nat                         \<comment> \<open>the next unused reference\<close>

definition get_agent :: "server \<Rightarrow> string \<Rightarrow> agent option" where
  "get_agent srv agent_id = map_of (registry srv) agent_id"

definition list_agents :: "server \<Rightarrow> agent list" where
  "list_agents srv = map snd (registry srv)"

definition tasks_contains :: "server \<Rightarrow> json \<Rightarrow> py_error + bool" where
  \<comment> \<open>\<^verbatim>\<open>task_id in self.tasks\<close>\<close>
  "tasks_contains srv task_id =
     (if hashable task_id then Inr (store_get (tasks srv) task_id \<noteq> None) else Inl TypeError)"

definition tasks_lookup :: "server \<Rightarrow> json \<Rightarrow> py_error + nat" where
  \<comment> \<open>\<^verbatim>\<open>self.tasks[task_id]\<close>, the reference\<close>
  "tasks_lookup srv task_id =
     (if hashable task_id
      then (case store_get (tasks srv) task_id of None \<Rightarrow> Inl KeyError | Some r \<Rightarrow> Inr r)
      else Inl TypeError)"

definition tasks_assign :: "server \<Rightarrow> json \<Rightarrow> json \<Rightarrow> py_error + server" where
  \<comment> \<open>\<^verbatim>\<open>self.tasks[task_id] = task\<close> for a newly built \<^verbatim>\<open>task\<close> dict\<close>
  "tasks_assign srv task_id task =
     (if hashable task_id
      then Inr (srv\<lparr>tasks := store_set (tasks srv) task_id (next_ref srv),
                    heap := (heap srv)(next_ref srv := task),
                    next_ref := Suc (next_ref srv)\<rparr>)
      else Inl TypeError)"

record request =
  r_api_key :: "string option"     \<comment> \<open>\<^verbatim>\<open>request.headers.get("x-api-key")\<close>\<close>
  r_agent_id :: string             \<comment> \<open>\<^verbatim>\<open>request.path_params["agent_id"]\<close>\<close>
  r_body :: "json option"          \<comment> \<open>\<^verbatim>\<open>await request.json()\<close>; \<^const>\<open>None\<close> is \<^verbatim>\<open>JSONDecodeError\<close>\<close>
  r_hostname :: "string option"    \<comment> \<open>\<^verbatim>\<open>request.base_url.hostname\<close>\<close>
  r_port :: "nat option"           \<comment> \<open>\<^verbatim>\<open>request.base_url.port\<close>\<close>

definition verify_api_key :: "server \<Rightarrow> request \<Rightarrow> bool" where
  "verify_api_key srv req =
     (case r_api_key req of
        None \<Rightarrow> False
      | Some api_key \<Rightarrow> if api_key = [] then False else api_key = config_api_key srv)"

section \<open>The response producers\<close>

definition file_suffix :: "json list \<Rightarrow> py_error + string" where
  \<comment> \<open>\<^verbatim>\<open>' ' + file_parts[0].get('file_name', '') if file_parts[0].get('file_name') else ''\<close>\<close>
  "file_suffix file_parts =
     (case file_parts of
        [] \<Rightarrow> Inl IndexError
      | f # _ \<Rightarrow> bind (py_get f ''file_name'' JNull) (\<lambda>c.
          if truthy c
          then bind (py_get f ''file_name'' (JStr [])) (\<lambda>n.
                 case n of JStr name \<Rightarrow> Inr ('' '' @ name) | _ \<Rightarrow> Inl TypeError)
          else Inr []))"

definition generate_agent_response ::
  "server \<Rightarrow> agent \<Rightarrow> string \<Rightarrow> json list \<Rightarrow> json list \<Rightarrow> py_error + string" where
  "generate_agent_response srv agent message_text file_parts data_parts =
     (let agent_name = get_or (a_name agent) ''Agent'';
          agent_description = get_or (a_description agent) [];
          agent_skills = get_or (a_skills agent) [];
          lower = py_lower message_text
      in
      if py_in ''create'' lower \<and> py_in ''agent'' lower then
        Inr (''I'm '' @ agent_name @ ''. I'd be happy to help with creating a new agent. Please provide details like the name, description, and skills for the new agent.'')
      else if py_in ''list'' lower \<and> py_in ''agent'' lower then
        Inr (''I'm '' @ agent_name @ ''. I can list all available agents. Currently, there are ''
             @ str_nat (length (list_agents srv)) @ '' agents registered in the system.'')
      else if py_in ''file'' lower \<and> file_parts \<noteq> [] then
        bind (file_suffix file_parts) (\<lambda>suffix.
          Inr (''I'm '' @ agent_name @ ''. I received your file'' @ suffix
               @ ''. I'll process it according to my capabilities: ''
               @ py_join '', '' agent_skills @ ''.''))
      else if py_in ''data'' lower \<and> data_parts \<noteq> [] then
        Inr (''I'm '' @ agent_name
             @ ''. I received your structured data. I'll analyze it based on my expertise in: ''
             @ py_join '', '' agent_skills @ ''.'')
      else
        Inr (''I'm '' @ agent_name @ '', specialized in '' @ py_join '', '' agent_skills @ ''. ''
             @ agent_description @ '' How can I assist you today?''))"

fun agent_lines :: "agent list \<Rightarrow> py_error + string list" where
  \<comment> \<open>\<^verbatim>\<open>[f"- {agent['name']}: {agent['description']}" for agent in agents]\<close>\<close>
  "agent_lines [] = Inr []"
| "agent_lines (a # as) =
     (case a_name a of
        None \<Rightarrow> Inl KeyError
      | Some name \<Rightarrow> (case a_description a of
          None \<Rightarrow> Inl KeyError
        | Some description \<Rightarrow>
            bind (agent_lines as) (\<lambda>rest. Inr ((''- '' @ name @ '': '' @ description) # rest))))"

definition generate_agency_response ::
  "server \<Rightarrow> string \<Rightarrow> json list \<Rightarrow> json list \<Rightarrow> py_error + string" where
  "generate_agency_response srv message_text file_parts data_parts =
     (let lower = py_lower message_text in
      if py_in ''create'' lower \<and> py_in ''agent'' lower then
        Inr (''I am the AI Agency. I can help you create a new agent. ''
             @ ''To create an agent, I need the following information:'' @ [CHR 0x0A]
             @ ''- Name for the agent'' @ [CHR 0x0A]
             @ ''- Description of its purpose'' @ [CHR 0x0A]
             @ ''- List of skills it should have'' @ [CHR 0x0A]
             @ ''- (Optional) Specific model to use'')
      else if py_in ''list'' lower \<and> py_in ''agent'' lower then
        (let agents = list_agents srv in
         if agents \<noteq> [] then
           bind (agent_lines (take 5 agents)) (\<lambda>lines.
             Inr (''Here are the available agents:'' @ [CHR 0x0A] @ py_join [CHR 0x0A] lines
                  @ [CHR 0x0A, CHR 0x0A] @ ''There are '' @ str_nat (length agents)
                  @ '' agents in total.''))
         else Inr ''There are no agents currently registered in the system.'')
      else if py_in ''file'' lower \<and> file_parts \<noteq> [] then
        bind (file_suffix file_parts) (\<lambda>suffix.
          Inr (''I received your file'' @ suffix
               @ ''. How would you like me to process it? I can create specialized agents for handling this type of data.''))
      else if py_in ''data'' lower \<and> data_parts \<noteq> [] then
        Inr ''I received your structured data. I can create specialized agents for analyzing this kind of information or forward it to an existing agent. What would you like to do?''
      else
        Inr (''I am the AI Agency. I can help you create and manage AI agents. ''
             @ ''My capabilities include:'' @ [CHR 0x0A]
             @ ''- Creating specialized agents for specific tasks'' @ [CHR 0x0A]
             @ ''- Managing existing agents (listing, updating, deleting)'' @ [CHR 0x0A]
             @ ''- Facilitating communication between agents'' @ [CHR 0x0A, CHR 0x0A]
             @ ''How can I assist you today?''))"

section \<open>Responses and the streaming generator\<close>

text \<open>
  \<^verbatim>\<open>stream_response\<close> is an async generator: a closure over \<^verbatim>\<open>task\<close> (a reference),
  \<^verbatim>\<open>request_id\<close>, \<^verbatim>\<open>agent\<close> (absent in the agency's variant), \<^verbatim>\<open>message_text\<close>,
  \<^verbatim>\<open>file_parts\<close> and \<^verbatim>\<open>data_parts\<close>, suspended at a \<^verbatim>\<open>yield\<close>. Its control state is where
  it is suspended: not started, after the initial snapshot, or in the loop with the list
  \<^verbatim>\<open>chunks\<close> and the index of the next chunk. Other requests run only while it is
  suspended.
\<close>

datatype gen_pc = AtStart | AfterInit | InLoop "string list" nat | Finished

record generator =
  g_task :: nat
  g_request_id :: json
  g_agent :: "agent option"
  g_message_text :: string
  g_file_parts :: "json list"
  g_data_parts :: "json list"
  g_pc :: gen_pc

datatype response =
    JSONResponse json nat       \<comment> \<open>content and status code\<close>
  | StreamResponse generator    \<comment> \<open>\<^verbatim>\<open>Response(stream_response(), media_type="text/event-stream")\<close>\<close>

definition rpc_result :: "json \<Rightarrow> json \<Rightarrow> json" where
  "rpc_result result request_id =
     JObj [(''jsonrpc'', JStr ''2.0''), (''result'', result), (''id'', request_id)]"

definition rpc_error :: "int \<Rightarrow> string \<Rightarrow> json \<Rightarrow> json" where
  "rpc_error code message request_id =
     JObj [(''jsonrpc'', JStr ''2.0''),
           (''error'', JObj [(''code'', JNum code), (''message'', JStr message)]),
           (''id'', request_id)]"

definition agent_message :: "string \<Rightarrow> json" where
  "agent_message text =
     JObj [(''role'', JStr ''agent''),
           (''parts'', JArr [JObj [(''type'', JStr ''text''), (''text'', JStr text)]])]"

section \<open>The task handlers\<close>

fun extract_parts ::
  "json list \<Rightarrow> string \<Rightarrow> json list \<Rightarrow> json list \<Rightarrow> py_error + (string \<times> json list \<times> json list)" where
  \<comment> \<open>the loop over \<^verbatim>\<open>message.get("parts", [])\<close>\<close>
  "extract_parts [] message_text file_parts data_parts = Inr (message_text, file_parts, data_parts)"
| "extract_parts (part # parts) message_text file_parts data_parts =
     bind (py_get part ''type'' JNull) (\<lambda>ty.
       if ty = JStr ''text'' then
         bind (py_get part ''text'' (JStr [])) (\<lambda>t.
           case t of
             JStr text \<Rightarrow> extract_parts parts (message_text @ text) file_parts data_parts
           | _ \<Rightarrow> Inl TypeError)
       else if ty = JStr ''file'' then
         bind (py_get part ''file'' (JObj [])) (\<lambda>f.
           extract_parts parts message_text (file_parts @ [f]) data_parts)
       else if ty = JStr ''data'' then
         bind (py_get part ''data'' (JObj [])) (\<lambda>d.
           extract_parts parts message_text file_parts (data_parts @ [d]))
       else extract_parts parts message_text file_parts data_parts)"

definition read_message :: "json \<Rightarrow> py_error + (json \<times> json \<times> string \<times> json list \<times> json list)" where
  \<comment> \<open>the head every send handler shares: the task id before the uuid default, the message
      and its extracted content\<close>
  "read_message params =
     bind (py_get params ''task_id'' JNull) (\<lambda>task_id.
     bind (py_get params ''message'' (JObj [])) (\<lambda>message.
     bind (py_get message ''parts'' (JArr [])) (\<lambda>parts.
     bind (py_iter parts) (\<lambda>items.
     bind (extract_parts items [] [] []) (\<lambda>(message_text, file_parts, data_parts).
       Inr (task_id, message, message_text, file_parts, data_parts))))))"

definition completed_task :: "json \<Rightarrow> json \<Rightarrow> string \<Rightarrow> json" where
  "completed_task task_id message response_text =
     JObj [(''id'', task_id), (''state'', JStr ''completed''),
           (''messages'', JArr [message, agent_message response_text]),
           (''artifacts'', JArr [])]"

definition working_task :: "json \<Rightarrow> json \<Rightarrow> json" where
  "working_task task_id message =
     JObj [(''id'', task_id), (''state'', JStr ''working''),
           (''messages'', JArr [message]), (''artifacts'', JArr [])]"

text \<open>
  \<open>uuid\<close> is the value \<^verbatim>\<open>str(uuid.uuid4())\<close> returns in this call.
\<close>

definition handle_tasks_send ::
  "server \<Rightarrow> string \<Rightarrow> json \<Rightarrow> json \<Rightarrow> agent \<Rightarrow> py_error + (server \<times> response)" where
  "handle_tasks_send srv uuid request_id params agent =
     bind (read_message params) (\<lambda>(task_id0, message, message_text, file_parts, data_parts).
     let task_id = (if \<not> truthy task_id0 then JStr uuid else task_id0) in
     bind (generate_agent_response srv agent message_text file_parts data_parts) (\<lambda>response_text.
     let task = completed_task task_id message response_text in
     bind (tasks_assign srv task_id task) (\<lambda>srv'.
       Inr (srv', JSONResponse (rpc_result task request_id) 200))))"

definition handle_agency_tasks_send ::
  "server \<Rightarrow> string \<Rightarrow> json \<Rightarrow> json \<Rightarrow> py_error + (server \<times> response)" where
  "handle_agency_tasks_send srv uuid request_id params =
     bind (read_message params) (\<lambda>(task_id0, message, message_text, file_parts, data_parts).
     let task_id = (if \<not> truthy task_id0 then JStr uuid else task_id0) in
     bind (generate_agency_response srv message_text file_parts data_parts) (\<lambda>response_text.
     let task = completed_task task_id message response_text in
     bind (tasks_assign srv task_id task) (\<lambda>srv'.
       Inr (srv', JSONResponse (rpc_result task request_id) 200))))"

definition send_subscribe ::
  "server \<Rightarrow> string \<Rightarrow> json \<Rightarrow> json \<Rightarrow> agent option \<Rightarrow> py_error + (server \<times> generator)" where
  \<comment> \<open>the body \<^verbatim>\<open>_handle_tasks_send_subscribe\<close> and \<^verbatim>\<open>_handle_agency_tasks_send_subscribe\<close>
      share, up to the generator object \<^verbatim>\<open>stream_response()\<close>; the two differ in the
      producer the generator calls\<close>
  "send_subscribe srv uuid request_id params agent =
     bind (read_message params) (\<lambda>(task_id0, message, message_text, file_parts, data_parts).
     let task_id = (if \<not> truthy task_id0 then JStr uuid else task_id0);
         task = working_task task_id message in
     bind (tasks_assign srv task_id task) (\<lambda>srv'.
       Inr (srv', \<lparr>g_task = next_ref srv, g_request_id = request_id,
              g_agent = agent, g_message_text = message_text, g_file_parts = file_parts,
              g_data_parts = data_parts, g_pc = AtStart\<rparr>)))"

definition handle_tasks_send_subscribe ::
  "server \<Rightarrow> string \<Rightarrow> json \<Rightarrow> json \<Rightarrow> agent \<Rightarrow> py_error + (server \<times> response)" where
  "handle_tasks_send_subscribe srv uuid request_id params agent =
     bind (send_subscribe srv uuid request_id params (Some agent)) (\<lambda>(srv', g).
       Inr (srv', StreamResponse g))"

definition handle_agency_tasks_send_subscribe ::
  "server \<Rightarrow> string \<Rightarrow> json \<Rightarrow> json \<Rightarrow> py_error + (server \<times> response)" where
  "handle_agency_tasks_send_subscribe srv uuid request_id params =
     bind (send_subscribe srv uuid request_id params None) (\<lambda>(srv', g).
       Inr (srv', StreamResponse g))"

subsection \<open>Resuming \<^verbatim>\<open>stream_response\<close>\<close>

definition append_message :: "json \<Rightarrow> json \<Rightarrow> py_error + json" where
  \<comment> \<open>\<^verbatim>\<open>task["messages"].append(m)\<close>\<close>
  "append_message task m =
     bind (py_getitem task ''messages'') (\<lambda>ms.
       case ms of
         JArr messages \<Rightarrow> py_setitem task ''messages'' (JArr (messages @ [m]))
       | _ \<Rightarrow> Inl AttributeError)"

definition extend_last_text :: "json \<Rightarrow> string \<Rightarrow> py_error + json" where
  \<comment> \<open>\<^verbatim>\<open>task["messages"][-1]["parts"][0]["text"] += chunk\<close>\<close>
  "extend_last_text task chunk =
     bind (py_getitem task ''messages'') (\<lambda>ms.
       case ms of
         JArr messages \<Rightarrow>
           if messages = [] then Inl IndexError
           else bind (py_getitem (last messages) ''parts'') (\<lambda>ps.
             case ps of
               JArr (part # parts) \<Rightarrow>
                 bind (py_getitem part ''text'') (\<lambda>t.
                   case t of
                     JStr text \<Rightarrow>
                       bind (py_setitem part ''text'' (JStr (text @ chunk))) (\<lambda>part'.
                       bind (py_setitem (last messages) ''parts'' (JArr (part' # parts))) (\<lambda>m'.
                         py_setitem task ''messages'' (JArr (butlast messages @ [m']))))
                   | _ \<Rightarrow> Inl TypeError)
             | JArr [] \<Rightarrow> Inl IndexError
             | _ \<Rightarrow> Inl TypeError)
       | _ \<Rightarrow> Inl TypeError)"

definition stream_iteration ::
  "server \<Rightarrow> generator \<Rightarrow> string list \<Rightarrow> nat \<Rightarrow> py_error + (server \<times> generator \<times> json option)" where
  \<comment> \<open>one turn of \<^verbatim>\<open>for i, chunk in enumerate(chunks)\<close> up to its \<^verbatim>\<open>yield\<close>, or the end of
      the generator when the chunks are used up\<close>
  "stream_iteration srv g chunks i =
     (if i < length chunks then
        bind (if i = 0 then append_message (heap srv (g_task g)) (agent_message (chunks ! i))
              else extend_last_text (heap srv (g_task g)) (chunks ! i)) (\<lambda>task.
        bind (if int i = int (length chunks) - 1 then py_setitem task ''state'' (JStr ''completed'')
              else Inr task) (\<lambda>task.
          Inr (srv\<lparr>heap := (heap srv)(g_task g := task)\<rparr>,
               g\<lparr>g_pc := InLoop chunks (Suc i)\<rparr>,
               Some (rpc_result task (g_request_id g)))))
      else Inr (srv, g\<lparr>g_pc := Finished\<rparr>, None))"

definition stream_next ::
  "server \<Rightarrow> generator \<Rightarrow> py_error + (server \<times> generator \<times> json option)" where
  \<comment> \<open>run the generator from where it is suspended to its next \<^verbatim>\<open>yield\<close>: the new server
      state, the generator suspended again, and the event's JSON (\<^const>\<open>None\<close> when the
      generator has returned)\<close>
  "stream_next srv g =
     (case g_pc g of
        AtStart \<Rightarrow>
          Inr (srv, g\<lparr>g_pc := AfterInit\<rparr>, Some (rpc_result (heap srv (g_task g)) (g_request_id g)))
      | AfterInit \<Rightarrow>
          bind (case g_agent g of
                  Some agent \<Rightarrow> generate_agent_response srv agent (g_message_text g)
                                  (g_file_parts g) (g_data_parts g)
                | None \<Rightarrow> generate_agency_response srv (g_message_text g)
                                  (g_file_parts g) (g_data_parts g)) (\<lambda>response_text.
            stream_iteration srv g (chunk_text response_text 50) 0)
      | InLoop chunks i \<Rightarrow> stream_iteration srv g chunks i
      | Finished \<Rightarrow> Inr (srv, g, None))"

fun stream_run ::
  "nat \<Rightarrow> server \<Rightarrow> generator \<Rightarrow> py_error + (server \<times> generator \<times> json list)" where
  \<comment> \<open>resume the generator at most \<open>n\<close> times with no other request in between, collecting
      the events\<close>
  "stream_run 0 srv g = Inr (srv, g, [])"
| "stream_run (Suc n) srv g =
     bind (stream_next srv g) (\<lambda>(srv', g', ev).
       case ev of
         None \<Rightarrow> Inr (srv', g', [])
       | Some e \<Rightarrow> bind (stream_run n srv' g') (\<lambda>(srv'', g'', es). Inr (srv'', g'', e # es)))"

subsection \<open>\<^verbatim>\<open>tasks/get\<close>, \<^verbatim>\<open>tasks/cancel\<close>, \<^verbatim>\<open>tasks/list\<close>, \<^verbatim>\<open>agent/info\<close>\<close>

definition task_not_found :: "json \<Rightarrow> json \<Rightarrow> response" where
  "task_not_found task_id request_id =
     JSONResponse (rpc_error (- 32602) (''Task with ID '' @ py_str task_id @ '' not found'') request_id) 404"

definition handle_tasks_get :: "server \<Rightarrow> json \<Rightarrow> json \<Rightarrow> py_error + (server \<times> response)" where
  "handle_tasks_get srv request_id params =
     bind (py_get params ''task_id'' JNull) (\<lambda>task_id.
     bind (if \<not> truthy task_id then Inr True
           else bind (tasks_contains srv task_id) (\<lambda>c. Inr (\<not> c))) (\<lambda>missing.
       if missing then Inr (srv, task_not_found task_id request_id)
       else bind (tasks_lookup srv task_id) (\<lambda>r.
         Inr (srv, JSONResponse (rpc_result (heap srv r) request_id) 200))))"

definition handle_tasks_cancel :: "server \<Rightarrow> json \<Rightarrow> json \<Rightarrow> py_error + (server \<times> response)" where
  "handle_tasks_cancel srv request_id params =
     bind (py_get params ''task_id'' JNull) (\<lambda>task_id.
     bind (if \<not> truthy task_id then Inr True
           else bind (tasks_contains srv task_id) (\<lambda>c. Inr (\<not> c))) (\<lambda>missing.
       if missing then Inr (srv, task_not_found task_id request_id)
       else bind (tasks_lookup srv task_id) (\<lambda>r.
            bind (py_setitem (heap srv r) ''state'' (JStr ''canceled'')) (\<lambda>task.
              Inr (srv\<lparr>heap := (heap srv)(r := task)\<rparr>,
                   JSONResponse (rpc_result task request_id) 200)))))"

fun task_summaries :: "server \<Rightarrow> (json \<times> nat) list \<Rightarrow> py_error + json list" where
  \<comment> \<open>the loop over \<^verbatim>\<open>self.tasks.items()\<close>\<close>
  "task_summaries srv [] = Inr []"
| "task_summaries srv ((task_id, r) # items) =
     (let task = heap srv r in
      bind (py_getitem task ''state'') (\<lambda>state.
      bind (py_getitem task ''messages'') (\<lambda>messages.
      bind (py_len messages) (\<lambda>message_count.
      bind (py_get task ''created_at'' (JStr [])) (\<lambda>created_at.
      bind (py_get task ''updated_at'' (JStr [])) (\<lambda>updated_at.
      bind (task_summaries srv items) (\<lambda>rest.
        Inr (JObj [(''id'', task_id), (''state'', state),
                   (''message_count'', JNum (int message_count)),
                   (''created_at'', created_at), (''updated_at'', updated_at)] # rest))))))))"

definition handle_tasks_list :: "server \<Rightarrow> json \<Rightarrow> json \<Rightarrow> py_error + (server \<times> response)" where
  "handle_tasks_list srv request_id params =
     bind (task_summaries srv (tasks srv)) (\<lambda>summaries.
       Inr (srv, JSONResponse (rpc_result (JObj [(''tasks'', JArr summaries)]) request_id) 200))"

definition handle_agent_info :: "server \<Rightarrow> json \<Rightarrow> agent \<Rightarrow> py_error + (server \<times> response)" where
  "handle_agent_info srv request_id agent =
     Inr (srv, JSONResponse (rpc_result
       (JObj [(''id'', JStr (get_or (a_id agent) [])),
              (''name'', JStr (get_or (a_name agent) [])),
              (''description'', JStr (get_or (a_description agent) [])),
              (''skills'', JArr (map JStr (get_or (a_skills agent) []))),
              (''status'', JStr (get_or (a_status agent) ''active'')),
              (''created_at'', JStr (get_or (a_created_at agent) [])),
              (''updated_at'', JStr (get_or (a_updated_at agent) []))]) request_id) 200)"

definition handle_agency_info :: "server \<Rightarrow> json \<Rightarrow> py_error + (server \<times> response)" where
  "handle_agency_info srv request_id =
     Inr (srv, JSONResponse (rpc_result
       (JObj [(''id'', JStr ''ai-agency''),
              (''name'', JStr ''AI Agency''),
              (''description'', JStr ''Autonomous AI Agency that can create and manage other agents''),
              (''skills'', JArr [JStr ''agent_creation'', JStr ''agent_management'',
                                JStr ''inter_agent_communication'']),
              (''agent_count'', JNum (int (length (list_agents srv)))),
              (''version'', JStr ''1.0.0'')]) request_id) 200)"

section \<open>The dispatchers\<close>

definition handle_agent_request :: "server \<Rightarrow> string \<Rightarrow> request \<Rightarrow> py_error + (server \<times> response)" where
  "handle_agent_request srv uuid req =
     (if \<not> verify_api_key srv req then
        Inr (srv, JSONResponse (JObj [(''error'', JStr ''Invalid or missing API key'')]) 401)
      else case get_agent srv (r_agent_id req) of
        None \<Rightarrow> Inr (srv, JSONResponse (JObj [(''error'',
                  JStr (''Agent with ID '' @ r_agent_id req @ '' not found''))]) 404)
      | Some agent \<Rightarrow>
        if \<not> agent_truthy agent then
          Inr (srv, JSONResponse (JObj [(''error'',
                  JStr (''Agent with ID '' @ r_agent_id req @ '' not found''))]) 404)
        else case r_body req of
          None \<Rightarrow> Inr (srv, JSONResponse (JObj [(''error'', JStr ''Invalid JSON'')]) 400)
        | Some json_rpc \<Rightarrow>
          bind (py_get json_rpc ''method'' JNull) (\<lambda>method.
          bind (py_get json_rpc ''params'' (JObj [])) (\<lambda>params.
          bind (py_get json_rpc ''id'' JNull) (\<lambda>request_id.
            if \<not> truthy method \<or> \<not> truthy request_id then
              Inr (srv, JSONResponse (rpc_error (- 32600) ''Invalid Request'' request_id) 400)
            else if method = JStr ''tasks/send'' then
              handle_tasks_send srv uuid request_id params agent
            else if method = JStr ''tasks/sendSubscribe'' then
              handle_tasks_send_subscribe srv uuid request_id params agent
            else if method = JStr ''tasks/get'' then
              handle_tasks_get srv request_id params
            else if method = JStr ''tasks/cancel'' then
              handle_tasks_cancel srv request_id params
            else if method = JStr ''tasks/list'' then
              handle_tasks_list srv request_id params
            else if method = JStr ''agent/info'' then
              handle_agent_info srv request_id agent
            else
              Inr (srv, JSONResponse (rpc_error (- 32601)
                     (''Method not found: '' @ py_str method) request_id) 404)))))"

definition handle_agency_request :: "server \<Rightarrow> string \<Rightarrow> request \<Rightarrow> py_error + (server \<times> response)" where
  "handle_agency_request srv uuid req =
     (if \<not> verify_api_key srv req then
        Inr (srv, JSONResponse (JObj [(''error'', JStr ''Invalid or missing API key'')]) 401)
      else case r_body req of
        None \<Rightarrow> Inr (srv, JSONResponse (JObj [(''error'', JStr ''Invalid JSON'')]) 400)
      | Some json_rpc \<Rightarrow>
        bind (py_get json_rpc ''method'' JNull) (\<lambda>method.
        bind (py_get json_rpc ''params'' (JObj [])) (\<lambda>params.
        bind (py_get json_rpc ''id'' JNull) (\<lambda>request_id.
          if \<not> truthy method \<or> \<not> truthy request_id then
            Inr (srv, JSONResponse (rpc_error (- 32600) ''Invalid Request'' request_id) 400)
          else if method = JStr ''tasks/send'' then
            handle_agency_tasks_send srv uuid request_id params
          else if method = JStr ''tasks/sendSubscribe'' then
            handle_agency_tasks_send_subscribe srv uuid request_id params
          else if method = JStr ''tasks/get'' then
            handle_tasks_get srv request_id params
          else if method = JStr ''tasks/cancel'' then
            handle_tasks_cancel srv request_id params
          else if method = JStr ''tasks/list'' then
            handle_tasks_list srv request_id params
          else if method = JStr ''agent/info'' then
            handle_agency_info srv request_id
          else
            Inr (srv, JSONResponse (rpc_error (- 32601)
                   (''Method not found: '' @ py_str method) request_id) 404)))))"

section \<open>Agent cards\<close>

definition skill_entry :: "string \<Rightarrow> json" where
  "skill_entry skill = JObj [(''name'', JStr skill), (''description'', JStr (''Skill in '' @ skill))]"

fun add_examples :: "json \<Rightarrow> nat \<Rightarrow> json list \<Rightarrow> py_error + json list" where
  \<comment> \<open>\<^verbatim>\<open>for skill_idx, skill in enumerate(card["skills"]):
            if skill_idx < len(agent_info["examples"]):
                skill["examples"] = agent_info["examples"][skill_idx]\<close>\<close>
  "add_examples examples skill_idx [] = Inr []"
| "add_examples examples skill_idx (skill # skills) =
     bind (py_len examples) (\<lambda>n.
     bind (if skill_idx < n
           then bind (py_index examples skill_idx) (\<lambda>e. py_setitem skill ''examples'' e)
           else Inr skill) (\<lambda>skill'.
     bind (add_examples examples (Suc skill_idx) skills) (\<lambda>rest. Inr (skill' # rest))))"

definition security_block :: json where
  "security_block =
     JArr [JObj [(''type'', JStr ''apiKey''), (''name'', JStr ''x-api-key''), (''in'', JStr ''header'')]]"

definition card_content :: "string \<Rightarrow> string \<Rightarrow> agent \<Rightarrow> py_error + json" where
  \<comment> \<open>the \<^verbatim>\<open>card\<close> dict \<^verbatim>\<open>AgentFactory._create_agent_card\<close> builds; \<open>endpoint\<close> is
      \<^verbatim>\<open>Config.A2A_ENDPOINT\<close>\<close>
  "card_content endpoint agent_id agent_info =
     (let url = endpoint @ ''/agents/'' @ agent_id;
          skills = map skill_entry (get_or (a_skills agent_info) [])
      in
      bind (case a_examples agent_info of
              None \<Rightarrow> Inr skills
            | Some examples \<Rightarrow> add_examples examples 0 skills) (\<lambda>skills.
        Inr (JObj
          [(''agentFormat'', JStr ''1.0.0''),
           (''info'', JObj
              [(''id'', JStr agent_id),
               (''name'', JStr (get_or (a_name agent_info) ''Agent'')),
               (''description'', JStr (get_or (a_description agent_info) [])),
               (''version'', JStr ''1.0.0''),
               (''contact'', JObj [(''name'', JStr (get_or (a_name agent_info) ''Agent'')),
                                  (''url'', JStr url)])]),
           (''servers'', JArr [JObj [(''url'', JStr url), (''protocol'', JStr ''a2a'')]]),
           (''security'', security_block),
           (''skills'', JArr skills)])))"

definition create_agent_card ::
  "string \<Rightarrow> string \<Rightarrow> (string \<rightharpoonup> json) \<Rightarrow> string \<Rightarrow> agent \<Rightarrow> (string \<rightharpoonup> json) \<times> string option" where
  \<comment> \<open>\<^verbatim>\<open>_create_agent_card\<close>: the card files after the call and the returned path; any
      exception inside the \<^verbatim>\<open>try\<close> gives \<^const>\<open>None\<close>. \<open>cards_dir\<close> is
      \<^verbatim>\<open>self.agent_cards_dir\<close>; a failing file system is not modelled.\<close>
  "create_agent_card endpoint cards_dir fs agent_id agent_info =
     (case card_content endpoint agent_id agent_info of
        Inl e \<Rightarrow> (fs, None)
      | Inr agent_card \<Rightarrow>
          (let card_path = cards_dir @ ''/'' @ agent_id @ ''.json''
           in (fs(card_path \<mapsto> agent_card), Some card_path)))"

definition agent_not_found :: "string \<Rightarrow> response" where
  "agent_not_found agent_id =
     JSONResponse (JObj [(''error'', JStr (''Agent with ID '' @ agent_id @ '' not found''))]) 404"

definition get_agent_card :: "(string \<rightharpoonup> json) \<Rightarrow> server \<Rightarrow> request \<Rightarrow> response" where
  \<comment> \<open>\<^verbatim>\<open>A2AServer.get_agent_card\<close>; a missing file is the one load failure modelled\<close>
  "get_agent_card fs srv req =
     (let agent_id = r_agent_id req in
      case get_agent srv agent_id of
        None \<Rightarrow> agent_not_found agent_id
      | Some agent \<Rightarrow>
          if \<not> agent_truthy agent then agent_not_found agent_id
          else case a2a_card_path agent of
            Some path \<Rightarrow>
              (case fs path of
                 Some agent_card \<Rightarrow> JSONResponse agent_card 200
               | None \<Rightarrow> JSONResponse (JObj [(''error'',
                   JStr (''Failed to load agent card: [Errno 2] No such file or directory: ''
                         @ repr_str path))]) 500)
          | None \<Rightarrow>
              (let url = ''http://'' @ str_opt (r_hostname req) @ '':''
                         @ (case r_port req of None \<Rightarrow> ''None'' | Some p \<Rightarrow> str_nat p)
                         @ ''/agents/'' @ agent_id
               in JSONResponse (JObj
                 [(''agentFormat'', JStr ''1.0.0''),
                  (''info'', JObj
                     [(''id'', JStr agent_id),
                      (''name'', JStr (get_or (a_name agent) ''Agent'')),
                      (''description'', JStr (get_or (a_description agent) [])),
                      (''version'', JStr (get_or (a_version agent) ''1.0.0'')),
                      (''contact'', JObj [(''name'', JStr (get_or (a_name agent) ''Agent'')),
                                         (''url'', JStr url)])]),
                  (''servers'', JArr [JObj [(''url'', JStr url), (''protocol'', JStr ''a2a'')]]),
                  (''security'', security_block),
                  (''skills'', JArr (map skill_entry (get_or (a_skills agent) [])))]) 200))"

section \<open>Well-formed \<^verbatim>\<open>tasks/send\<close> parameters\<close>

text \<open>
  The wire format \<^verbatim>\<open>A2AClient\<close> sends: \<^verbatim>\<open>params\<close> is an object whose \<^verbatim>\<open>message\<close> is an object
  with a list of parts; a part is an object, a text part carries a string, a file part
  carries an object whose \<^verbatim>\<open>file_name\<close>, when given, is a string (or a false value), and a
  task id, when given, is a scalar.
\<close>

definition file_ok :: "json \<Rightarrow> bool" where
  "file_ok f =
     (case f of
        JObj kvs \<Rightarrow> (case map_of kvs ''file_name'' of
                       None \<Rightarrow> True
                     | Some (JStr name) \<Rightarrow> True
                     | Some v \<Rightarrow> \<not> truthy v)
      | _ \<Rightarrow> False)"

definition valid_part :: "json \<Rightarrow> bool" where
  "valid_part part =
     (case part of
        JObj kvs \<Rightarrow>
          if map_of kvs ''type'' = Some (JStr ''text'') then
            (case map_of kvs ''text'' of None \<Rightarrow> True | Some (JStr text) \<Rightarrow> True | Some v \<Rightarrow> False)
          else if map_of kvs ''type'' = Some (JStr ''file'') then
            (case map_of kvs ''file'' of None \<Rightarrow> True | Some f \<Rightarrow> file_ok f)
          else True
      | _ \<Rightarrow> False)"

definition valid_message :: "json \<Rightarrow> bool" where
  "valid_message message =
     (case message of
        JObj kvs \<Rightarrow> (case map_of kvs ''parts'' of
                       None \<Rightarrow> True
                     | Some (JArr parts) \<Rightarrow> list_all valid_part parts
                     | Some v \<Rightarrow> False)
      | _ \<Rightarrow> False)"

definition valid_send_params :: "json \<Rightarrow> bool" where
  "valid_send_params params =
     (case params of
        JObj kvs \<Rightarrow>
          (case map_of kvs ''task_id'' of None \<Rightarrow> True | Some task_id \<Rightarrow> hashable task_id) \<and>
          (case map_of kvs ''message'' of None \<Rightarrow> False | Some message \<Rightarrow> valid_message message)
      | _ \<Rightarrow> False)"

section \<open>Reading tasks and responses\<close>

definition task_state :: "json \<Rightarrow> py_error + json" where
  \<comment> \<open>\<^verbatim>\<open>task["state"]\<close>\<close>
  "task_state task = py_getitem task ''state''"

definition task_messages :: "json \<Rightarrow> py_error + json list" where
  \<comment> \<open>\<^verbatim>\<open>task["messages"]\<close>, a list\<close>
  "task_messages task =
     bind (py_getitem task ''messages'') (\<lambda>ms. case ms of JArr xs \<Rightarrow> Inr xs | _ \<Rightarrow> Inl TypeError)"

definition last_text :: "json \<Rightarrow> py_error + json" where
  \<comment> \<open>\<^verbatim>\<open>task["messages"][-1]["parts"][0]["text"]\<close>\<close>
  "last_text task =
     bind (task_messages task) (\<lambda>ms.
       if ms = [] then Inl IndexError
       else bind (py_getitem (last ms) ''parts'') (\<lambda>ps.
         bind (py_index ps 0) (\<lambda>part. py_getitem part ''text'')))"

definition stored_task :: "server \<Rightarrow> json \<Rightarrow> py_error + json" where
  \<comment> \<open>\<^verbatim>\<open>self.tasks[task_id]\<close>, the object\<close>
  "stored_task srv task_id = bind (tasks_lookup srv task_id) (\<lambda>r. Inr (heap srv r))"

definition is_error_envelope :: "json \<Rightarrow> bool" where
  \<comment> \<open>\<^verbatim>\<open>{"jsonrpc": "2.0", "error": {"code": int, "message": string}, "id": ...}\<close>\<close>
  "is_error_envelope body =
     (case body of
        JObj kvs \<Rightarrow>
          map_of kvs ''jsonrpc'' = Some (JStr ''2.0'') \<and> map_of kvs ''id'' \<noteq> None \<and>
          (case map_of kvs ''error'' of
             Some (JObj e) \<Rightarrow>
               (case map_of e ''code'' of Some (JNum c) \<Rightarrow> True | _ \<Rightarrow> False) \<and>
               (case map_of e ''message'' of Some (JStr m) \<Rightarrow> True | _ \<Rightarrow> False)
           | _ \<Rightarrow> False)
      | _ \<Rightarrow> False)"

section \<open>The failure classes of a POST\<close>

definition resolves :: "server \<Rightarrow> request \<Rightarrow> agent \<Rightarrow> bool" where
  \<comment> \<open>the path's agent id names a registered agent\<close>
  "resolves srv req agent \<longleftrightarrow>
     get_agent srv (r_agent_id req) = Some agent \<and> agent_truthy agent"

definition unknown_agent :: "server \<Rightarrow> request \<Rightarrow> bool" where
  "unknown_agent srv req \<longleftrightarrow>
     (case get_agent srv (r_agent_id req) of None \<Rightarrow> True | Some agent \<Rightarrow> \<not> agent_truthy agent)"

definition missing_field :: "(string \<times> json) list \<Rightarrow> bool" where
  \<comment> \<open>\<^verbatim>\<open>not method or not request_id\<close>: the field is absent or has a false value\<close>
  "missing_field kvs \<longleftrightarrow>
     \<not> truthy (get_or (map_of kvs ''method'') JNull) \<or> \<not> truthy (get_or (map_of kvs ''id'') JNull)"

definition known_method :: "json \<Rightarrow> bool" where
  "known_method method \<longleftrightarrow> method \<in> {JStr ''tasks/send'', JStr ''tasks/sendSubscribe'',
     JStr ''tasks/get'', JStr ''tasks/cancel'', JStr ''tasks/list'', JStr ''agent/info''}"

definition unknown_task :: "server \<Rightarrow> json \<Rightarrow> bool" where
  \<comment> \<open>\<^verbatim>\<open>not task_id or task_id not in self.tasks\<close>, for a task id that can be looked up\<close>
  "unknown_task srv task_id \<longleftrightarrow>
     \<not> truthy task_id \<or> (hashable task_id \<and> store_get (tasks srv) task_id = None)"

section \<open>Example inputs\<close>

definition demo_agent :: agent where
  "demo_agent = \<lparr>a_id = Some ''abc'', a_name = Some ''Bot'', a_description = Some ''Helps.'',
     a_skills = Some [''demo''], a_version = None, a_status = Some ''active'',
     a_created_at = None, a_updated_at = None, a_examples = None, a2a_card_path = None,
     a_extra = []\<rparr>"

definition demo_server :: server where
  "demo_server = \<lparr>config_api_key = ''secret'', registry = [(''abc'', demo_agent)], tasks = [],
     heap = (\<lambda>r. JNull), next_ref = 0\<rparr>"

definition hello_message :: json where
  "hello_message =
     JObj [(''role'', JStr ''user''),
           (''parts'', JArr [JObj [(''type'', JStr ''text''), (''text'', JStr ''hello'')]])]"

definition hello_params :: json where
  \<comment> \<open>the \<^verbatim>\<open>params\<close> of the specification's \<^verbatim>\<open>tasks/send\<close> scenario\<close>
  "hello_params = JObj [(''message'', hello_message)]"

definition rpc_request :: "string \<Rightarrow> json \<Rightarrow> json \<Rightarrow> json" where
  "rpc_request method params request_id =
     JObj [(''jsonrpc'', JStr ''2.0''), (''method'', JStr method), (''params'', params),
           (''id'', request_id)]"

definition demo_request :: "string option \<Rightarrow> string \<Rightarrow> json option \<Rightarrow> request" where
  \<comment> \<open>a POST with the given \<^verbatim>\<open>x-api-key\<close> header, agent id in the path and parsed body\<close>
  "demo_request key agent_id body =
     \<lparr>r_api_key = key, r_agent_id = agent_id, r_body = body,
      r_hostname = Some ''localhost'', r_port = Some 8000\<rparr>"

definition del_key :: "string \<Rightarrow> (string \<times> json) list \<Rightarrow> (string \<times> json) list" where
  \<comment> \<open>an object without one of its fields\<close>
  "del_key key kvs = filter (\<lambda>kv. fst kv \<noteq> key) kvs"

definition t1_params :: json where
  "t1_params = JObj [(''task_id'', JStr ''t1''), (''message'', hello_message)]"

definition server_after_send :: server where
  \<comment> \<open>the server once \<^verbatim>\<open>tasks/send\<close> has stored the completed task \<^verbatim>\<open>t1\<close>\<close>
  "server_after_send =
     (case handle_tasks_send demo_server ''u1'' (JStr ''1'') t1_params demo_agent of
        Inr (srv, resp) \<Rightarrow> srv
      | Inl e \<Rightarrow> demo_server)"

section \<open>Chunking: word alignment and what re-joining gives\<close>

lemma chunk_loop_groups:
  "chunk_loop n ws chunks cur = chunks @ map (py_join '' '') (group_loop n ws cur)"
  by (induction ws arbitrary: chunks cur) (simp_all add: Let_def)

lemma concat_group_loop: "concat (group_loop n ws cur) = cur @ ws"
  by (induction ws arbitrary: cur) simp_all

lemma group_loop_nonempty: "[] \<notin> set (group_loop n ws cur)"
  by (induction ws arbitrary: cur) simp_all

lemma group_loop_butlast:
  "g \<in> set (butlast (group_loop n ws cur)) \<Longrightarrow> n \<le> int (length (py_join '' '' g))"
proof (induction ws arbitrary: cur)
  case Nil
  then show ?case by (simp split: if_splits)
next
  case (Cons w ws)
  show ?case
  proof (cases "int (length (py_join '' '' (cur @ [w]))) \<ge> n")
    case True
    show ?thesis
    proof (cases "group_loop n ws [] = []")
      case e: True
      with True Cons.prems show ?thesis by simp
    next
      case ne: False
      with True Cons.prems have "g = cur @ [w] \<or> g \<in> set (butlast (group_loop n ws []))"
        by simp
      then show ?thesis using True Cons.IH by blast
    qed
  next
    case False
    with Cons.prems have "g \<in> set (butlast (group_loop n ws (cur @ [w])))" by simp
    then show ?thesis by (rule Cons.IH)
  qed
qed

lemma py_join_Cons:
  "ys \<noteq> [] \<Longrightarrow> py_join sep (x # ys) = x @ sep @ py_join sep ys"
  by (cases ys) simp_all

lemma py_join_append:
  "xs \<noteq> [] \<Longrightarrow> ys \<noteq> [] \<Longrightarrow> py_join sep (xs @ ys) = py_join sep xs @ sep @ py_join sep ys"
proof (induction xs)
  case Nil
  then show ?case by simp
next
  case (Cons x xs)
  show ?case
  proof (cases "xs = []")
    case True
    with Cons.prems show ?thesis by (simp add: py_join_Cons)
  next
    case False
    with Cons show ?thesis by (simp add: py_join_Cons)
  qed
qed

lemma py_join_concat:
  "[] \<notin> set gs \<Longrightarrow> py_join sep (map (py_join sep) gs) = py_join sep (concat gs)"
proof (induction gs)
  case Nil
  then show ?case by simp
next
  case (Cons g gs)
  show ?case
  proof (cases "gs = []")
    case True
    then show ?thesis by simp
  next
    case False
    from Cons.prems have g: "g \<noteq> []" and gs: "[] \<notin> set gs" by auto
    from False gs have c: "concat gs \<noteq> []" by (cases gs) auto
    from False have m: "map (py_join sep) gs \<noteq> []" by simp
    have "py_join sep (map (py_join sep) (g # gs))
        = py_join sep g @ sep @ py_join sep (map (py_join sep) gs)"
      using m by (simp add: py_join_Cons)
    also have "\<dots> = py_join sep g @ sep @ py_join sep (concat gs)"
      using Cons.IH gs by simp
    also have "\<dots> = py_join sep (g @ concat gs)"
      using g c by (simp add: py_join_append)
    finally show ?thesis by simp
  qed
qed

text \<open>
  Claim C2, as the code has it. For every text, the chunks \<^verbatim>\<open>_chunk_text(text, 50)\<close> returns
  are the words of \<^verbatim>\<open>text.split()\<close> cut into consecutive non-empty groups, each group
  joined by single spaces, so no chunk boundary falls inside a word; every chunk but the
  last has at least 50 characters; and joining the chunks by single spaces gives the words
  of the text joined by single spaces. That is the text itself exactly when the text
  already is its words joined by single spaces (no leading or trailing whitespace, and a
  single space between words).
\<close>

theorem chunk_text_rejoin:
  "(\<exists>groups. concat groups = py_split text \<and> [] \<notin> set groups
       \<and> chunk_text text 50 = map (py_join '' '') groups)
   \<and> (\<forall>c \<in> set (butlast (chunk_text text 50)). 50 \<le> length c)
   \<and> py_join '' '' (chunk_text text 50) = py_join '' '' (py_split text)
   \<and> (text = py_join '' '' (py_split text) \<longrightarrow> py_join '' '' (chunk_text text 50) = text)"
proof -
  let ?gs = "group_loop 50 (py_split text) []"
  have c: "chunk_text text 50 = map (py_join '' '') ?gs"
    by (simp add: chunk_text_def chunk_loop_groups)
  have g1: "concat ?gs = py_split text" by (simp add: concat_group_loop)
  have g2: "[] \<notin> set ?gs" by (rule group_loop_nonempty)
  have a: "\<exists>groups. concat groups = py_split text \<and> [] \<notin> set groups
       \<and> chunk_text text 50 = map (py_join '' '') groups"
    using c g1 g2 by blast
  have b: "\<forall>c \<in> set (butlast (chunk_text text 50)). 50 \<le> length c"
  proof
    fix x assume "x \<in> set (butlast (chunk_text text 50))"
    then have "x \<in> py_join '' '' ` set (butlast ?gs)"
      by (simp add: c map_butlast [symmetric])
    then obtain g where "g \<in> set (butlast ?gs)" "x = py_join '' '' g" by auto
    then show "50 \<le> length x" using group_loop_butlast [of g 50 "py_split text" "[]"] by simp
  qed
  have d: "py_join '' '' (chunk_text text 50) = py_join '' '' (py_split text)"
    using py_join_concat [OF g2, of "'' ''"] by (simp only: c g1)
  from d have e: "text = py_join '' '' (py_split text) \<longrightarrow> py_join '' '' (chunk_text text 50) = text"
    by simp
  from a b d e show ?thesis by blast
qed


text \<open>
  The theorem at a response of two chunks that is already in single-space form.
\<close>

theorem chunk_text_rejoin_witness:
  "''I'm Bot, specialized in demo. Helps. How can I assist you today?''
     = py_join '' '' (py_split ''I'm Bot, specialized in demo. Helps. How can I assist you today?'')
   \<and> chunk_text ''I'm Bot, specialized in demo. Helps. How can I assist you today?'' 50
     = [''I'm Bot, specialized in demo. Helps. How can I assist'', ''you today?'']
   \<and> 50 \<le> length ''I'm Bot, specialized in demo. Helps. How can I assist''
   \<and> py_join '' '' (chunk_text ''I'm Bot, specialized in demo. Helps. How can I assist you today?'' 50)
     = ''I'm Bot, specialized in demo. Helps. How can I assist you today?''"
proof -
  let ?text = "''I'm Bot, specialized in demo. Helps. How can I assist you today?''"
  have h: "?text = py_join '' '' (py_split ?text)"
    by (simp add: py_split_def is_space_def)
  have v: "chunk_text ?text 50
     = [''I'm Bot, specialized in demo. Helps. How can I assist'', ''you today?'']"
    by (simp add: chunk_text_def py_split_def is_space_def)
  from chunk_text_rejoin [of ?text]
  have b: "\<forall>c \<in> set (butlast (chunk_text ?text 50)). 50 \<le> length c"
    and r: "?text = py_join '' '' (py_split ?text) \<longrightarrow> py_join '' '' (chunk_text ?text 50) = ?text"
    by blast+
  from b have "50 \<le> length ''I'm Bot, specialized in demo. Helps. How can I assist''"
    unfolding v by simp
  moreover from r h have "py_join '' '' (chunk_text ?text 50) = ?text" by blast
  ultimately show ?thesis using h v by blast
qed

text \<open>
  Claim C2 as stated fails. The default response of an agent with skill \<^verbatim>\<open>demo\<close>, no name
  and no description has two spaces after the first sentence; its chunks joined by single
  spaces have one.
\<close>

theorem chunk_text_rejoin_counterexample:
  "py_join '' '' (chunk_text ''I'm Agent, specialized in demo.  How can I assist you today?'' 50)
     \<noteq> ''I'm Agent, specialized in demo.  How can I assist you today?''"
  by (simp add: chunk_text_def py_split_def is_space_def)

section \<open>Evaluating the handlers\<close>

lemmas handler_defs =
  handle_tasks_send_def handle_agency_tasks_send_def send_subscribe_def
  handle_tasks_send_subscribe_def handle_agency_tasks_send_subscribe_def
  handle_tasks_get_def handle_tasks_cancel_def handle_tasks_list_def
  handle_agent_info_def handle_agency_info_def
  read_message_def bind_def tasks_assign_def tasks_contains_def tasks_lookup_def
  completed_task_def working_task_def agent_message_def rpc_result_def rpc_error_def
  task_not_found_def generate_agent_response_def generate_agency_response_def
  file_suffix_def get_or_def py_lower_def py_lower_char_def list_agents_def get_agent_def
  stream_next_def stream_iteration_def append_message_def extend_last_text_def
  chunk_text_def py_split_def is_space_def
  task_state_def task_messages_def last_text_def stored_task_def Let_def

lemmas demo_defs =
  demo_agent_def demo_server_def hello_message_def hello_params_def t1_params_def
  rpc_request_def demo_request_def

lemma map_of_dict_set: "map_of (dict_set kvs key v) = (map_of kvs)(key \<mapsto> v)"
  by (induction kvs key v rule: dict_set.induct) (auto simp: fun_eq_iff)

lemma server_after_send_eq:
  "server_after_send = demo_server\<lparr>tasks := [(JStr ''t1'', 0)],
      heap := (heap demo_server)(0 := completed_task (JStr ''t1'') hello_message
                ''I'm Bot, specialized in demo. Helps. How can I assist you today?''),
      next_ref := 1\<rparr>"
  by (simp add: server_after_send_def handler_defs demo_defs)

section \<open>\<^verbatim>\<open>tasks/cancel\<close>\<close>

text \<open>
  Claim C4, as the code has it. For every task id present in the store, whatever the
  state of its task (completed included), \<^verbatim>\<open>tasks/cancel\<close> sets the task's state to
  \<^verbatim>\<open>canceled\<close>, leaves every other key of the task as it was, leaves the store's entries
  as they were, and returns the updated task with status 200.
\<close>

theorem cancel_sets_canceled:
  assumes present: "tasks_lookup srv task_id = Inr r"
    and tid: "truthy task_id"
    and params: "py_get params ''task_id'' JNull = Inr task_id"
    and obj: "heap srv r = JObj kvs"
  shows "handle_tasks_cancel srv request_id params
           = Inr (srv\<lparr>heap := (heap srv)(r := JObj (dict_set kvs ''state'' (JStr ''canceled'')))\<rparr>,
                  JSONResponse (rpc_result (JObj (dict_set kvs ''state'' (JStr ''canceled''))) request_id) 200)
         \<and> task_state (JObj (dict_set kvs ''state'' (JStr ''canceled''))) = Inr (JStr ''canceled'')
         \<and> (\<forall>k. k \<noteq> ''state'' \<longrightarrow>
               py_getitem (JObj (dict_set kvs ''state'' (JStr ''canceled''))) k = py_getitem (JObj kvs) k)"
proof -
  from present have h: "hashable task_id" and g: "store_get (tasks srv) task_id = Some r"
    by (auto simp: tasks_lookup_def split: if_splits option.splits)
  have "handle_tasks_cancel srv request_id params
           = Inr (srv\<lparr>heap := (heap srv)(r := JObj (dict_set kvs ''state'' (JStr ''canceled'')))\<rparr>,
                  JSONResponse (rpc_result (JObj (dict_set kvs ''state'' (JStr ''canceled''))) request_id) 200)"
    using tid params obj h g present
    by (simp add: handle_tasks_cancel_def bind_def tasks_contains_def)
  moreover have "task_state (JObj (dict_set kvs ''state'' (JStr ''canceled''))) = Inr (JStr ''canceled'')"
    by (simp add: task_state_def map_of_dict_set)
  moreover have "\<forall>k. k \<noteq> ''state'' \<longrightarrow>
               py_getitem (JObj (dict_set kvs ''state'' (JStr ''canceled''))) k = py_getitem (JObj kvs) k"
    by (simp add: map_of_dict_set)
  ultimately show ?thesis by blast
qed

text \<open>
  The theorem at the completed task \<^verbatim>\<open>t1\<close>.
\<close>

theorem cancel_sets_canceled_witness:
  "tasks_lookup server_after_send (JStr ''t1'') = Inr 0
   \<and> bind (stored_task server_after_send (JStr ''t1'')) task_state = Inr (JStr ''completed'')
   \<and> (case handle_tasks_cancel server_after_send (JStr ''2'') (JObj [(''task_id'', JStr ''t1'')]) of
         Inr (srv', JSONResponse body status) \<Rightarrow>
           status = 200 \<and> bind (py_getitem body ''result'') task_state = Inr (JStr ''canceled'')
           \<and> bind (stored_task srv' (JStr ''t1'')) task_state = Inr (JStr ''canceled'')
           \<and> bind (stored_task srv' (JStr ''t1'')) (\<lambda>t. py_getitem t ''id'') = Inr (JStr ''t1'')
       | _ \<Rightarrow> False)"
proof -
  let ?kvs = "[(''id'', JStr ''t1''), (''state'', JStr ''completed''),
     (''messages'', JArr [hello_message, agent_message
        ''I'm Bot, specialized in demo. Helps. How can I assist you today?'']),
     (''artifacts'', JArr [])]"
  have p: "tasks_lookup server_after_send (JStr ''t1'') = Inr 0"
    by (simp add: server_after_send_eq tasks_lookup_def)
  have t: "truthy (JStr ''t1'')" by simp
  have q: "py_get (JObj [(''task_id'', JStr ''t1'')]) ''task_id'' JNull = Inr (JStr ''t1'')" by simp
  have o: "heap server_after_send 0 = JObj ?kvs"
    by (simp add: server_after_send_eq completed_task_def)
  have s: "bind (stored_task server_after_send (JStr ''t1'')) task_state = Inr (JStr ''completed'')"
    by (simp add: stored_task_def p o bind_def task_state_def)
  from cancel_sets_canceled [OF p t q o, of "JStr ''2''"] p s
  show ?thesis
    by (simp add: bind_def rpc_result_def stored_task_def tasks_lookup_def task_state_def server_after_send_eq)
qed

text \<open>
  Claim C4 as stated fails: the completed task \<^verbatim>\<open>t1\<close> is \<^verbatim>\<open>canceled\<close> after
  \<^verbatim>\<open>tasks/cancel\<close>.
\<close>

theorem cancel_completed_counterexample:
  "bind (stored_task server_after_send (JStr ''t1'')) task_state = Inr (JStr ''completed'')
   \<and> bind (handle_tasks_cancel server_after_send (JStr ''2'') (JObj [(''task_id'', JStr ''t1'')]))
        (\<lambda>(srv', resp). bind (stored_task srv' (JStr ''t1'')) task_state) = Inr (JStr ''canceled'')"
  by (simp add: server_after_send_eq handler_defs demo_defs)

section \<open>\<^verbatim>\<open>tasks/send\<close>\<close>

lemma extract_parts_valid:
  "list_all valid_part ps \<Longrightarrow> list_all file_ok fs0 \<Longrightarrow>
   \<exists>t fs ds. extract_parts ps t0 fs0 ds0 = Inr (t, fs, ds) \<and> list_all file_ok fs"
proof (induction ps arbitrary: t0 fs0 ds0)
  case Nil
  then show ?case by simp
next
  case (Cons p ps)
  from Cons.prems have vp: "valid_part p" and rest: "list_all valid_part ps" by simp_all
  from vp obtain kvs where p: "p = JObj kvs"
    by (auto simp: valid_part_def split: json.splits)
  consider (is_text) "map_of kvs ''type'' = Some (JStr ''text'')"
    | (is_file) "map_of kvs ''type'' = Some (JStr ''file'')"
    | (is_data) "map_of kvs ''type'' = Some (JStr ''data'')"
    | (other) "map_of kvs ''type'' \<noteq> Some (JStr ''text'')" "map_of kvs ''type'' \<noteq> Some (JStr ''file'')"
        "map_of kvs ''type'' \<noteq> Some (JStr ''data'')"
    by blast
  then show ?case
  proof cases
    case is_text
    with vp p obtain s where "(case map_of kvs ''text'' of None \<Rightarrow> JStr [] | Some v \<Rightarrow> v) = JStr s"
      by (auto simp: valid_part_def split: option.splits json.splits)
    with is_text p Cons.IH [OF rest Cons.prems(2)] show ?thesis
      by (simp add: bind_def)
  next
    case is_file
    have "file_ok (JObj [])" by (simp add: file_ok_def)
    with is_file vp p have "file_ok (case map_of kvs ''file'' of None \<Rightarrow> JObj [] | Some v \<Rightarrow> v)"
      by (auto simp: valid_part_def split: option.splits)
    with Cons.prems(2) have "list_all file_ok (fs0 @ [case map_of kvs ''file'' of None \<Rightarrow> JObj [] | Some v \<Rightarrow> v])"
      by simp
    from Cons.IH [OF rest this] is_file p show ?thesis
      by (simp add: bind_def)
  next
    case is_data
    with p Cons.IH [OF rest Cons.prems(2)] show ?thesis
      by (simp add: bind_def)
  next
    case other
    then have "(case map_of kvs ''type'' of None \<Rightarrow> JNull | Some v \<Rightarrow> v) \<noteq> JStr ''text''"
      "(case map_of kvs ''type'' of None \<Rightarrow> JNull | Some v \<Rightarrow> v) \<noteq> JStr ''file''"
      "(case map_of kvs ''type'' of None \<Rightarrow> JNull | Some v \<Rightarrow> v) \<noteq> JStr ''data''"
      by (auto split: option.splits)
    with p Cons.IH [OF rest Cons.prems(2)] show ?thesis
      by (simp add: bind_def)
  qed
qed

lemma file_suffix_ok:
  "file_parts \<noteq> [] \<Longrightarrow> list_all file_ok file_parts \<Longrightarrow> \<exists>s. file_suffix file_parts = Inr s"
  by (cases file_parts)
     (auto simp: file_suffix_def file_ok_def bind_def split: json.splits option.splits)

lemma generate_agent_response_ok:
  "list_all file_ok file_parts \<Longrightarrow>
   \<exists>text. generate_agent_response srv agent message_text file_parts data_parts = Inr text"
  using file_suffix_ok [of file_parts]
  by (auto simp: generate_agent_response_def Let_def bind_def)

lemma read_message_valid:
  assumes "valid_send_params params"
  shows "\<exists>kvs message t fs ds.
     params = JObj kvs \<and> map_of kvs ''message'' = Some message \<and>
     read_message params
       = Inr (case map_of kvs ''task_id'' of None \<Rightarrow> JNull | Some v \<Rightarrow> v, message, t, fs, ds)
     \<and> list_all file_ok fs"
proof -
  from assms obtain kvs message where p: "params = JObj kvs"
    and m: "map_of kvs ''message'' = Some message" and vm: "valid_message message"
    by (auto simp: valid_send_params_def split: json.splits option.splits)
  from vm obtain mk where mo: "message = JObj mk"
    by (auto simp: valid_message_def split: json.splits)
  from vm mo obtain parts where
    ps: "(case map_of mk ''parts'' of None \<Rightarrow> JArr [] | Some v \<Rightarrow> v) = JArr parts"
    and vp: "list_all valid_part parts"
    by (auto simp: valid_message_def split: option.splits json.splits)
  from extract_parts_valid [OF vp, of "[]" "[]" "[]"]
  obtain t fs ds where e: "extract_parts parts [] [] [] = Inr (t, fs, ds)" and f: "list_all file_ok fs"
    by auto
  from p m mo ps e have "read_message params
       = Inr (case map_of kvs ''task_id'' of None \<Rightarrow> JNull | Some v \<Rightarrow> v, message, t, fs, ds)"
    by (simp add: read_message_def bind_def)
  with p m f show ?thesis by blast
qed

text \<open>
  Claim C5. For every well-formed \<^verbatim>\<open>tasks/send\<close> request (\<^const>\<open>valid_send_params\<close>: a
  params object carrying a message), every server state, request id and agent, the
  handler returns, with status 200, the JSON-RPC result envelope of a task whose state is
  \<^verbatim>\<open>completed\<close> and whose messages are exactly two: the request's message, then a message
  of role \<^verbatim>\<open>agent\<close> whose parts are exactly one part of type \<^verbatim>\<open>text\<close>.
\<close>

theorem send_returns_completed_task:
  assumes "valid_send_params params"
  shows "\<exists>srv' task message reply reply_text.
     handle_tasks_send srv uuid request_id params agent
       = Inr (srv', JSONResponse (rpc_result task request_id) 200)
     \<and> py_getitem params ''message'' = Inr message
     \<and> task_state task = Inr (JStr ''completed'')
     \<and> task_messages task = Inr [message, reply]
     \<and> py_getitem reply ''role'' = Inr (JStr ''agent'')
     \<and> py_getitem reply ''parts'' = Inr (JArr [JObj [(''type'', JStr ''text''), (''text'', JStr reply_text)]])"
proof -
  from read_message_valid [OF assms] obtain kvs message t fs ds where
    p: "params = JObj kvs" and m: "map_of kvs ''message'' = Some message"
    and r: "read_message params
       = Inr (case map_of kvs ''task_id'' of None \<Rightarrow> JNull | Some v \<Rightarrow> v, message, t, fs, ds)"
    and f: "list_all file_ok fs"
    by blast
  from generate_agent_response_ok [OF f] obtain reply_text where
    g: "generate_agent_response srv agent t fs ds = Inr reply_text" by blast
  let ?tid0 = "case map_of kvs ''task_id'' of None \<Rightarrow> JNull | Some v \<Rightarrow> v"
  let ?tid = "if \<not> truthy ?tid0 then JStr uuid else ?tid0"
  from assms p have h: "hashable ?tid"
    by (auto simp: valid_send_params_def split: option.splits)
  let ?task = "completed_task ?tid message reply_text"
  obtain srv' where a: "tasks_assign srv ?tid ?task = Inr srv'"
    using h by (simp add: tasks_assign_def)
  have "handle_tasks_send srv uuid request_id params agent
       = Inr (srv', JSONResponse (rpc_result ?task request_id) 200)"
    using r g a by (simp add: handle_tasks_send_def bind_def Let_def)
  moreover have "py_getitem params ''message'' = Inr message" using p m by simp
  moreover have "task_state ?task = Inr (JStr ''completed'')"
    by (simp add: task_state_def completed_task_def)
  moreover have "task_messages ?task = Inr [message, agent_message reply_text]"
    by (simp add: task_messages_def completed_task_def bind_def)
  moreover have "py_getitem (agent_message reply_text) ''role'' = Inr (JStr ''agent'')"
    by (simp add: agent_message_def)
  moreover have "py_getitem (agent_message reply_text) ''parts''
       = Inr (JArr [JObj [(''type'', JStr ''text''), (''text'', JStr reply_text)]])"
    by (simp add: agent_message_def)
  ultimately show ?thesis by blast
qed

text \<open>
  The theorem at the specification's scenario: the message \<^verbatim>\<open>hello\<close> sent to an agent with
  skills \<^verbatim>\<open>["demo"]\<close>.
\<close>

theorem send_returns_completed_task_witness:
  "valid_send_params hello_params
   \<and> (case handle_tasks_send demo_server ''u1'' (JStr ''1'') hello_params demo_agent of
         Inr (srv', JSONResponse body status) \<Rightarrow>
           status = 200
           \<and> bind (py_getitem body ''result'') task_state = Inr (JStr ''completed'')
           \<and> bind (py_getitem body ''result'') task_messages
               = Inr [hello_message,
                      agent_message ''I'm Bot, specialized in demo. Helps. How can I assist you today?'']
       | _ \<Rightarrow> False)"
proof -
  have v: "valid_send_params hello_params"
    by (simp add: valid_send_params_def valid_message_def valid_part_def demo_defs)
  from send_returns_completed_task [OF v, of demo_server "''u1''" "JStr ''1''" demo_agent]
  obtain srv' task message reply reply_text where
    h: "handle_tasks_send demo_server ''u1'' (JStr ''1'') hello_params demo_agent
          = Inr (srv', JSONResponse (rpc_result task (JStr ''1'')) 200)"
    and st: "task_state task = Inr (JStr ''completed'')"
    and ms: "task_messages task = Inr [message, reply]"
    by blast
  have e: "handle_tasks_send demo_server ''u1'' (JStr ''1'') hello_params demo_agent
      = Inr (demo_server\<lparr>tasks := [(JStr ''u1'', 0)],
               heap := (heap demo_server)(0 := completed_task (JStr ''u1'') hello_message
                 ''I'm Bot, specialized in demo. Helps. How can I assist you today?''),
               next_ref := 1\<rparr>,
             JSONResponse (rpc_result (completed_task (JStr ''u1'') hello_message
               ''I'm Bot, specialized in demo. Helps. How can I assist you today?'') (JStr ''1'')) 200)"
    by (simp add: handler_defs demo_defs)
  from h e have t: "task = completed_task (JStr ''u1'') hello_message
      ''I'm Bot, specialized in demo. Helps. How can I assist you today?''"
    by (simp add: rpc_result_def)
  have m: "task_messages task = Inr [hello_message,
      agent_message ''I'm Bot, specialized in demo. Helps. How can I assist you today?'']"
    unfolding t by (simp add: task_messages_def completed_task_def bind_def)
  have r: "py_getitem (rpc_result task (JStr ''1'')) ''result'' = Inr task"
    by (simp add: rpc_result_def)
  show ?thesis using v st m r by (simp add: h bind_def)
qed

section \<open>The dispatchers' failure paths\<close>

lemma map_of_del_key:
  "map_of (del_key key kvs) k = (if k = key then None else map_of kvs k)"
  by (induction kvs) (auto simp: del_key_def)

lemma agent_invalid_request:
  assumes "verify_api_key srv req" "get_agent srv (r_agent_id req) = Some agent"
    "agent_truthy agent" "r_body req = Some (JObj kvs)"
    "\<not> truthy (get_or (map_of kvs ''method'') JNull) \<or> \<not> truthy (get_or (map_of kvs ''id'') JNull)"
  shows "handle_agent_request srv uuid req
     = Inr (srv, JSONResponse (rpc_error (- 32600) ''Invalid Request'' (get_or (map_of kvs ''id'') JNull)) 400)"
  using assms by (auto simp: handle_agent_request_def bind_def get_or_def)

lemma agency_invalid_request:
  assumes "verify_api_key srv req" "r_body req = Some (JObj kvs)"
    "\<not> truthy (get_or (map_of kvs ''method'') JNull) \<or> \<not> truthy (get_or (map_of kvs ''id'') JNull)"
  shows "handle_agency_request srv uuid req
     = Inr (srv, JSONResponse (rpc_error (- 32600) ''Invalid Request'' (get_or (map_of kvs ''id'') JNull)) 400)"
  using assms by (auto simp: handle_agency_request_def bind_def get_or_def)

lemma is_error_envelope_rpc_error: "is_error_envelope (rpc_error code message request_id)"
  by (simp add: is_error_envelope_def rpc_error_def)

lemma plain_error_not_envelope: "\<not> is_error_envelope (JObj [(''error'', JStr message)])"
  by (simp add: is_error_envelope_def)

lemma agent_auth_failure:
  "\<not> verify_api_key srv req \<Longrightarrow> handle_agent_request srv uuid req
     = Inr (srv, JSONResponse (JObj [(''error'', JStr ''Invalid or missing API key'')]) 401)"
  by (simp add: handle_agent_request_def)

lemma agency_auth_failure:
  "\<not> verify_api_key srv req \<Longrightarrow> handle_agency_request srv uuid req
     = Inr (srv, JSONResponse (JObj [(''error'', JStr ''Invalid or missing API key'')]) 401)"
  by (simp add: handle_agency_request_def)

lemma agent_unknown_agent:
  assumes "verify_api_key srv req"
    and "get_agent srv (r_agent_id req) = None
         \<or> (\<exists>a. get_agent srv (r_agent_id req) = Some a \<and> \<not> agent_truthy a)"
  shows "handle_agent_request srv uuid req
     = Inr (srv, JSONResponse (JObj [(''error'',
              JStr (''Agent with ID '' @ r_agent_id req @ '' not found''))]) 404)"
  using assms by (auto simp: handle_agent_request_def)

lemma agent_unknown_method:
  assumes "verify_api_key srv req" "get_agent srv (r_agent_id req) = Some agent"
    "agent_truthy agent" "r_body req = Some (JObj kvs)"
    "map_of kvs ''method'' = Some meth" "truthy meth" "\<not> known_method meth"
    "map_of kvs ''id'' = Some request_id" "truthy request_id"
  shows "handle_agent_request srv uuid req
     = Inr (srv, JSONResponse (rpc_error (- 32601) (''Method not found: '' @ py_str meth)
              request_id) 404)"
  using assms by (simp add: handle_agent_request_def bind_def known_method_def)

lemma agency_unknown_method:
  assumes "verify_api_key srv req" "r_body req = Some (JObj kvs)"
    "map_of kvs ''method'' = Some meth" "truthy meth" "\<not> known_method meth"
    "map_of kvs ''id'' = Some request_id" "truthy request_id"
  shows "handle_agency_request srv uuid req
     = Inr (srv, JSONResponse (rpc_error (- 32601) (''Method not found: '' @ py_str meth)
              request_id) 404)"
  using assms by (simp add: handle_agency_request_def bind_def known_method_def)

lemma get_unknown_task:
  assumes "py_get params ''task_id'' JNull = Inr task_id" "unknown_task srv task_id"
  shows "handle_tasks_get srv request_id params = Inr (srv, task_not_found task_id request_id)"
  using assms by (auto simp: handle_tasks_get_def bind_def unknown_task_def tasks_contains_def)

lemma cancel_unknown_task:
  assumes "py_get params ''task_id'' JNull = Inr task_id" "unknown_task srv task_id"
  shows "handle_tasks_cancel srv request_id params = Inr (srv, task_not_found task_id request_id)"
  using assms by (auto simp: handle_tasks_cancel_def bind_def unknown_task_def tasks_contains_def)

lemma agent_unknown_task:
  assumes "verify_api_key srv req" "get_agent srv (r_agent_id req) = Some agent"
    "agent_truthy agent" "r_body req = Some (JObj kvs)"
    "map_of kvs ''method'' = Some meth" "meth = JStr ''tasks/get'' \<or> meth = JStr ''tasks/cancel''"
    "map_of kvs ''id'' = Some request_id" "truthy request_id"
    "py_get (get_or (map_of kvs ''params'') (JObj [])) ''task_id'' JNull = Inr task_id"
    "unknown_task srv task_id"
  shows "handle_agent_request srv uuid req = Inr (srv, task_not_found task_id request_id)"
  using assms get_unknown_task [OF assms(9,10)] cancel_unknown_task [OF assms(9,10)]
  by (auto simp: handle_agent_request_def bind_def get_or_def)

lemma agency_unknown_task:
  assumes "verify_api_key srv req" "r_body req = Some (JObj kvs)"
    "map_of kvs ''method'' = Some meth" "meth = JStr ''tasks/get'' \<or> meth = JStr ''tasks/cancel''"
    "map_of kvs ''id'' = Some request_id" "truthy request_id"
    "py_get (get_or (map_of kvs ''params'') (JObj [])) ''task_id'' JNull = Inr task_id"
    "unknown_task srv task_id"
  shows "handle_agency_request srv uuid req = Inr (srv, task_not_found task_id request_id)"
  using assms get_unknown_task [OF assms(7,8)] cancel_unknown_task [OF assms(7,8)]
  by (auto simp: handle_agency_request_def bind_def get_or_def)

text \<open>
  Claim C9. Let a request be authenticated, name a registered agent and carry a JSON
  object as its body. If the body's \<^verbatim>\<open>id\<close> is present and one of \<^verbatim>\<open>0\<close>, \<^verbatim>\<open>""\<close>, \<^verbatim>\<open>false\<close>,
  \<^verbatim>\<open>null\<close>, or its \<^verbatim>\<open>method\<close> is present and \<^verbatim>\<open>""\<close>, then \<^verbatim>\<open>handle_agent_request\<close> and
  \<^verbatim>\<open>handle_agency_request\<close> both answer with the Invalid Request error (code -32600,
  status 400) and leave the server as it was, and so they do for the same body without
  that field. The response echoes the body's \<^verbatim>\<open>id\<close> (\<^verbatim>\<open>null\<close> when the body has none).
\<close>

theorem falsy_id_or_method_rejected:
  assumes auth: "verify_api_key srv req"
    and agent: "get_agent srv (r_agent_id req) = Some agent" "agent_truthy agent"
    and body: "r_body req = Some (JObj kvs)"
    and falsy: "map_of kvs field = Some v"
      "(field = ''id'' \<and> v \<in> {JNum 0, JStr [], JBool False, JNull}) \<or> (field = ''method'' \<and> v = JStr [])"
  shows "handle_agent_request srv uuid req
           = Inr (srv, JSONResponse (rpc_error (- 32600) ''Invalid Request''
                    (get_or (map_of kvs ''id'') JNull)) 400)
       \<and> handle_agency_request srv uuid req
           = Inr (srv, JSONResponse (rpc_error (- 32600) ''Invalid Request''
                    (get_or (map_of kvs ''id'') JNull)) 400)
       \<and> handle_agent_request srv uuid (req\<lparr>r_body := Some (JObj (del_key field kvs))\<rparr>)
           = Inr (srv, JSONResponse (rpc_error (- 32600) ''Invalid Request''
                    (get_or (map_of (del_key field kvs) ''id'') JNull)) 400)
       \<and> handle_agency_request srv uuid (req\<lparr>r_body := Some (JObj (del_key field kvs))\<rparr>)
           = Inr (srv, JSONResponse (rpc_error (- 32600) ''Invalid Request''
                    (get_or (map_of (del_key field kvs) ''id'') JNull)) 400)"
proof -
  from falsy have f: "\<not> truthy (get_or (map_of kvs ''method'') JNull)
      \<or> \<not> truthy (get_or (map_of kvs ''id'') JNull)"
    by (auto simp: get_or_def)
  from falsy have d: "\<not> truthy (get_or (map_of (del_key field kvs) ''method'') JNull)
      \<or> \<not> truthy (get_or (map_of (del_key field kvs) ''id'') JNull)"
    by (auto simp: get_or_def map_of_del_key)
  let ?req = "req\<lparr>r_body := Some (JObj (del_key field kvs))\<rparr>"
  have a': "verify_api_key srv ?req" using auth by (simp add: verify_api_key_def)
  have g': "get_agent srv (r_agent_id ?req) = Some agent" using agent by simp
  have b': "r_body ?req = Some (JObj (del_key field kvs))" by simp
  note r1 = agent_invalid_request [OF auth agent body f, of uuid]
  note r2 = agency_invalid_request [OF auth body f, of uuid]
  note r3 = agent_invalid_request [OF a' g' agent(2) b' d, of uuid]
  note r4 = agency_invalid_request [OF a' b' d, of uuid]
  from r1 r2 r3 r4 show ?thesis by blast
qed

text \<open>
  The theorem at a \<^verbatim>\<open>tasks/list\<close> request whose \<^verbatim>\<open>id\<close> is \<^verbatim>\<open>0\<close>.
\<close>

theorem falsy_id_or_method_rejected_witness:
  "handle_agent_request demo_server ''u1''
      (demo_request (Some ''secret'') ''abc''
         (Some (JObj [(''jsonrpc'', JStr ''2.0''), (''method'', JStr ''tasks/list''), (''id'', JNum 0)])))
     = Inr (demo_server, JSONResponse (rpc_error (- 32600) ''Invalid Request'' (JNum 0)) 400)
   \<and> handle_agency_request demo_server ''u1''
      (demo_request (Some ''secret'') ''abc''
         (Some (JObj [(''jsonrpc'', JStr ''2.0''), (''method'', JStr ''tasks/list''), (''id'', JNum 0)])))
     = Inr (demo_server, JSONResponse (rpc_error (- 32600) ''Invalid Request'' (JNum 0)) 400)
   \<and> handle_agent_request demo_server ''u1''
      (demo_request (Some ''secret'') ''abc''
         (Some (JObj [(''jsonrpc'', JStr ''2.0''), (''method'', JStr ''tasks/list'')])))
     = Inr (demo_server, JSONResponse (rpc_error (- 32600) ''Invalid Request'' JNull) 400)
   \<and> handle_agency_request demo_server ''u1''
      (demo_request (Some ''secret'') ''abc''
         (Some (JObj [(''jsonrpc'', JStr ''2.0''), (''method'', JStr ''tasks/list'')])))
     = Inr (demo_server, JSONResponse (rpc_error (- 32600) ''Invalid Request'' JNull) 400)"
proof -
  let ?kvs = "[(''jsonrpc'', JStr ''2.0''), (''method'', JStr ''tasks/list''), (''id'', JNum 0)]"
  let ?req = "demo_request (Some ''secret'') ''abc'' (Some (JObj ?kvs))"
  have a: "verify_api_key demo_server ?req"
    by (simp add: verify_api_key_def demo_defs)
  have g: "get_agent demo_server (r_agent_id ?req) = Some demo_agent"
    by (simp add: get_agent_def demo_defs)
  have t: "agent_truthy demo_agent" by (simp add: agent_truthy_def demo_agent_def)
  have b: "r_body ?req = Some (JObj ?kvs)" by (simp add: demo_request_def)
  have m: "map_of ?kvs ''id'' = Some (JNum 0)" by simp
  have f: "(''id'' = ''id'' \<and> JNum 0 \<in> {JNum 0, JStr [], JBool False, JNull})
      \<or> (''id'' = ''method'' \<and> JNum 0 = JStr [])" by simp
  from falsy_id_or_method_rejected [OF a g t b m f, of "''u1''"]
  show ?thesis by (simp add: get_or_def del_key_def demo_request_def)
qed

text \<open>
  Claim C6, as the code has it. A failure found once the body is parsed is answered
  with a JSON-RPC error envelope (a numeric code and a string message) and a matching
  status: a missing \<^verbatim>\<open>method\<close> or \<^verbatim>\<open>id\<close> with -32600 and 400, an unrecognised method with
  -32601 and 404, an unknown task id in \<^verbatim>\<open>tasks/get\<close> or \<^verbatim>\<open>tasks/cancel\<close> with -32602 and
  404. A failure found before that is answered with the plain body
  \<^verbatim>\<open>{"error": message}\<close>, which is no envelope: a failed authentication with status 401,
  an unknown agent id with 404, a body that is not JSON with 400. In every case the
  server state is unchanged.
\<close>

theorem failure_responses:
  "(\<not> verify_api_key srv req \<longrightarrow>
      handle_agent_request srv uuid req
        = Inr (srv, JSONResponse (JObj [(''error'', JStr ''Invalid or missing API key'')]) 401)
      \<and> handle_agency_request srv uuid req
        = Inr (srv, JSONResponse (JObj [(''error'', JStr ''Invalid or missing API key'')]) 401))
   \<and> (verify_api_key srv req \<and> unknown_agent srv req \<longrightarrow>
      handle_agent_request srv uuid req
        = Inr (srv, JSONResponse (JObj [(''error'',
                 JStr (''Agent with ID '' @ r_agent_id req @ '' not found''))]) 404))
   \<and> (verify_api_key srv req \<and> r_body req = None \<longrightarrow>
      (resolves srv req agent \<longrightarrow> handle_agent_request srv uuid req
        = Inr (srv, JSONResponse (JObj [(''error'', JStr ''Invalid JSON'')]) 400))
      \<and> handle_agency_request srv uuid req
        = Inr (srv, JSONResponse (JObj [(''error'', JStr ''Invalid JSON'')]) 400))
   \<and> (\<forall>message. \<not> is_error_envelope (JObj [(''error'', JStr message)]))
   \<and> (verify_api_key srv req \<and> r_body req = Some (JObj kvs) \<and> missing_field kvs \<longrightarrow>
      (resolves srv req agent \<longrightarrow> handle_agent_request srv uuid req
        = Inr (srv, JSONResponse (rpc_error (- 32600) ''Invalid Request''
                 (get_or (map_of kvs ''id'') JNull)) 400))
      \<and> handle_agency_request srv uuid req
        = Inr (srv, JSONResponse (rpc_error (- 32600) ''Invalid Request''
                 (get_or (map_of kvs ''id'') JNull)) 400))
   \<and> (verify_api_key srv req \<and> r_body req = Some (JObj kvs)
       \<and> map_of kvs ''method'' = Some meth \<and> truthy meth \<and> \<not> known_method meth
       \<and> map_of kvs ''id'' = Some request_id \<and> truthy request_id \<longrightarrow>
      (resolves srv req agent \<longrightarrow> handle_agent_request srv uuid req
        = Inr (srv, JSONResponse (rpc_error (- 32601) (''Method not found: '' @ py_str meth)
                 request_id) 404))
      \<and> handle_agency_request srv uuid req
        = Inr (srv, JSONResponse (rpc_error (- 32601) (''Method not found: '' @ py_str meth)
                 request_id) 404))
   \<and> (verify_api_key srv req \<and> r_body req = Some (JObj kvs)
       \<and> map_of kvs ''method'' = Some meth
       \<and> (meth = JStr ''tasks/get'' \<or> meth = JStr ''tasks/cancel'')
       \<and> map_of kvs ''id'' = Some request_id \<and> truthy request_id
       \<and> py_get (get_or (map_of kvs ''params'') (JObj [])) ''task_id'' JNull = Inr task_id
       \<and> unknown_task srv task_id \<longrightarrow>
      (resolves srv req agent \<longrightarrow> handle_agent_request srv uuid req
        = Inr (srv, JSONResponse (rpc_error (- 32602)
                 (''Task with ID '' @ py_str task_id @ '' not found'') request_id) 404))
      \<and> handle_agency_request srv uuid req
        = Inr (srv, JSONResponse (rpc_error (- 32602)
                 (''Task with ID '' @ py_str task_id @ '' not found'') request_id) 404))
   \<and> (\<forall>code message request_id. is_error_envelope (rpc_error code message request_id))"
proof -
  have p1: "\<not> verify_api_key srv req \<longrightarrow>
      handle_agent_request srv uuid req
        = Inr (srv, JSONResponse (JObj [(''error'', JStr ''Invalid or missing API key'')]) 401)
      \<and> handle_agency_request srv uuid req
        = Inr (srv, JSONResponse (JObj [(''error'', JStr ''Invalid or missing API key'')]) 401)"
    by (simp add: agent_auth_failure agency_auth_failure)
  have p2: "verify_api_key srv req \<and> unknown_agent srv req \<longrightarrow>
      handle_agent_request srv uuid req
        = Inr (srv, JSONResponse (JObj [(''error'',
                 JStr (''Agent with ID '' @ r_agent_id req @ '' not found''))]) 404)"
    using agent_unknown_agent [of srv req uuid]
    by (auto simp: unknown_agent_def split: option.splits)
  have p3: "verify_api_key srv req \<and> r_body req = None \<longrightarrow>
      (resolves srv req agent \<longrightarrow> handle_agent_request srv uuid req
        = Inr (srv, JSONResponse (JObj [(''error'', JStr ''Invalid JSON'')]) 400))
      \<and> handle_agency_request srv uuid req
        = Inr (srv, JSONResponse (JObj [(''error'', JStr ''Invalid JSON'')]) 400)"
    by (simp add: handle_agent_request_def handle_agency_request_def resolves_def)
  have p4: "\<forall>message. \<not> is_error_envelope (JObj [(''error'', JStr message)])"
    by (simp add: plain_error_not_envelope)
  have p5: "verify_api_key srv req \<and> r_body req = Some (JObj kvs) \<and> missing_field kvs \<longrightarrow>
      (resolves srv req agent \<longrightarrow> handle_agent_request srv uuid req
        = Inr (srv, JSONResponse (rpc_error (- 32600) ''Invalid Request''
                 (get_or (map_of kvs ''id'') JNull)) 400))
      \<and> handle_agency_request srv uuid req
        = Inr (srv, JSONResponse (rpc_error (- 32600) ''Invalid Request''
                 (get_or (map_of kvs ''id'') JNull)) 400)"
    using agent_invalid_request [of srv req agent kvs uuid]
      agency_invalid_request [of srv req kvs uuid]
    by (simp add: missing_field_def resolves_def)
  have p6: "verify_api_key srv req \<and> r_body req = Some (JObj kvs)
       \<and> map_of kvs ''method'' = Some meth \<and> truthy meth \<and> \<not> known_method meth
       \<and> map_of kvs ''id'' = Some request_id \<and> truthy request_id \<longrightarrow>
      (resolves srv req agent \<longrightarrow> handle_agent_request srv uuid req
        = Inr (srv, JSONResponse (rpc_error (- 32601) (''Method not found: '' @ py_str meth)
                 request_id) 404))
      \<and> handle_agency_request srv uuid req
        = Inr (srv, JSONResponse (rpc_error (- 32601) (''Method not found: '' @ py_str meth)
                 request_id) 404)"
    using agent_unknown_method [of srv req agent kvs meth request_id uuid]
      agency_unknown_method [of srv req kvs meth request_id uuid]
    by (simp add: resolves_def)
  have p7: "verify_api_key srv req \<and> r_body req = Some (JObj kvs)
       \<and> map_of kvs ''method'' = Some meth
       \<and> (meth = JStr ''tasks/get'' \<or> meth = JStr ''tasks/cancel'')
       \<and> map_of kvs ''id'' = Some request_id \<and> truthy request_id
       \<and> py_get (get_or (map_of kvs ''params'') (JObj [])) ''task_id'' JNull = Inr task_id
       \<and> unknown_task srv task_id \<longrightarrow>
      (resolves srv req agent \<longrightarrow> handle_agent_request srv uuid req
        = Inr (srv, JSONResponse (rpc_error (- 32602)
                 (''Task with ID '' @ py_str task_id @ '' not found'') request_id) 404))
      \<and> handle_agency_request srv uuid req
        = Inr (srv, JSONResponse (rpc_error (- 32602)
                 (''Task with ID '' @ py_str task_id @ '' not found'') request_id) 404)"
    using agent_unknown_task [of srv req agent kvs meth request_id task_id uuid]
      agency_unknown_task [of srv req kvs meth request_id task_id uuid]
    by (simp add: resolves_def task_not_found_def)
  have p8: "\<forall>code message request_id. is_error_envelope (rpc_error code message request_id)"
    by (simp add: is_error_envelope_rpc_error)
  from p1 p2 p3 p4 p5 p6 p7 p8 show ?thesis by blast
qed

text \<open>
  The theorem at one request for each failure class.
\<close>

theorem failure_responses_witness:
  "handle_agent_request demo_server ''u1'' (demo_request None ''abc'' None)
     = Inr (demo_server, JSONResponse (JObj [(''error'', JStr ''Invalid or missing API key'')]) 401)
   \<and> handle_agent_request demo_server ''u1'' (demo_request (Some ''secret'') ''nobody'' None)
     = Inr (demo_server, JSONResponse (JObj [(''error'', JStr ''Agent with ID nobody not found'')]) 404)
   \<and> handle_agency_request demo_server ''u1'' (demo_request (Some ''secret'') ''abc'' None)
     = Inr (demo_server, JSONResponse (JObj [(''error'', JStr ''Invalid JSON'')]) 400)
   \<and> handle_agent_request demo_server ''u1''
       (demo_request (Some ''secret'') ''abc'' (Some (JObj [(''method'', JStr ''tasks/list'')])))
     = Inr (demo_server, JSONResponse (rpc_error (- 32600) ''Invalid Request'' JNull) 400)
   \<and> handle_agent_request demo_server ''u1''
       (demo_request (Some ''secret'') ''abc'' (Some (rpc_request ''tasks/purge'' (JObj []) (JStr ''7''))))
     = Inr (demo_server, JSONResponse (rpc_error (- 32601) ''Method not found: tasks/purge'' (JStr ''7'')) 404)
   \<and> handle_agency_request demo_server ''u1''
       (demo_request (Some ''secret'') ''abc''
          (Some (rpc_request ''tasks/get'' (JObj [(''task_id'', JStr ''nope'')]) (JStr ''8''))))
     = Inr (demo_server, JSONResponse (rpc_error (- 32602) ''Task with ID nope not found'' (JStr ''8'')) 404)
   \<and> is_error_envelope (rpc_error (- 32602) ''Task with ID nope not found'' (JStr ''8''))
   \<and> \<not> is_error_envelope (JObj [(''error'', JStr ''Invalid or missing API key'')])"
proof -
  have auth: "\<And>a b. verify_api_key demo_server (demo_request (Some ''secret'') a b)"
    by (simp add: verify_api_key_def demo_defs)
  have res: "\<And>b. resolves demo_server (demo_request (Some ''secret'') ''abc'' b) demo_agent"
    by (simp add: resolves_def get_agent_def agent_truthy_def demo_defs)
  have w1: "handle_agent_request demo_server ''u1'' (demo_request None ''abc'' None)
     = Inr (demo_server, JSONResponse (JObj [(''error'', JStr ''Invalid or missing API key'')]) 401)"
    using failure_responses [where srv = demo_server and req = "demo_request None ''abc'' None"
        and uuid = "''u1''"]
    by (simp add: verify_api_key_def demo_request_def)
  have w2: "handle_agent_request demo_server ''u1'' (demo_request (Some ''secret'') ''nobody'' None)
     = Inr (demo_server, JSONResponse (JObj [(''error'', JStr ''Agent with ID nobody not found'')]) 404)"
    using failure_responses [where srv = demo_server
        and req = "demo_request (Some ''secret'') ''nobody'' None" and uuid = "''u1''"] auth
    by (simp add: unknown_agent_def get_agent_def demo_defs)
  have w3: "handle_agency_request demo_server ''u1'' (demo_request (Some ''secret'') ''abc'' None)
     = Inr (demo_server, JSONResponse (JObj [(''error'', JStr ''Invalid JSON'')]) 400)"
    using failure_responses [where srv = demo_server
        and req = "demo_request (Some ''secret'') ''abc'' None" and uuid = "''u1''"] auth
    by (simp add: demo_request_def)
  have w4: "handle_agent_request demo_server ''u1''
       (demo_request (Some ''secret'') ''abc'' (Some (JObj [(''method'', JStr ''tasks/list'')])))
     = Inr (demo_server, JSONResponse (rpc_error (- 32600) ''Invalid Request'' JNull) 400)"
    using failure_responses [where srv = demo_server
        and req = "demo_request (Some ''secret'') ''abc'' (Some (JObj [(''method'', JStr ''tasks/list'')]))"
        and uuid = "''u1''" and kvs = "[(''method'', JStr ''tasks/list'')]" and agent = demo_agent]
      auth res
    by (simp add: missing_field_def get_or_def demo_request_def)
  have w5: "handle_agent_request demo_server ''u1''
       (demo_request (Some ''secret'') ''abc'' (Some (rpc_request ''tasks/purge'' (JObj []) (JStr ''7''))))
     = Inr (demo_server, JSONResponse (rpc_error (- 32601) ''Method not found: tasks/purge'' (JStr ''7'')) 404)"
    using failure_responses [where srv = demo_server
        and req = "demo_request (Some ''secret'') ''abc'' (Some (rpc_request ''tasks/purge'' (JObj []) (JStr ''7'')))"
        and uuid = "''u1''" and agent = demo_agent
        and kvs = "[(''jsonrpc'', JStr ''2.0''), (''method'', JStr ''tasks/purge''), (''params'', JObj []),
                    (''id'', JStr ''7'')]"
        and meth = "JStr ''tasks/purge''" and request_id = "JStr ''7''"]
      auth res
    by (simp add: known_method_def rpc_request_def demo_request_def)
  have w6: "handle_agency_request demo_server ''u1''
       (demo_request (Some ''secret'') ''abc''
          (Some (rpc_request ''tasks/get'' (JObj [(''task_id'', JStr ''nope'')]) (JStr ''8''))))
     = Inr (demo_server, JSONResponse (rpc_error (- 32602) ''Task with ID nope not found'' (JStr ''8'')) 404)"
    using failure_responses [where srv = demo_server
        and req = "demo_request (Some ''secret'') ''abc''
          (Some (rpc_request ''tasks/get'' (JObj [(''task_id'', JStr ''nope'')]) (JStr ''8'')))"
        and uuid = "''u1''" and agent = demo_agent
        and kvs = "[(''jsonrpc'', JStr ''2.0''), (''method'', JStr ''tasks/get''),
                    (''params'', JObj [(''task_id'', JStr ''nope'')]), (''id'', JStr ''8'')]"
        and meth = "JStr ''tasks/get''" and request_id = "JStr ''8''" and task_id = "JStr ''nope''"]
      auth
    by (simp add: unknown_task_def get_or_def rpc_request_def demo_request_def demo_server_def)
  have w7: "is_error_envelope (rpc_error (- 32602) ''Task with ID nope not found'' (JStr ''8''))"
    using failure_responses [where srv = demo_server] by blast
  have w8: "\<not> is_error_envelope (JObj [(''error'', JStr ''Invalid or missing API key'')])"
    using failure_responses [where srv = demo_server] by blast
  from w1 w2 w3 w4 w5 w6 w7 w8 show ?thesis by blast
qed

text \<open>
  Claim C6 as stated fails: a request without an API key, and an authenticated request
  for an agent id that is not registered, get a body that is no JSON-RPC error envelope.
\<close>

theorem failure_envelope_counterexample:
  "(case handle_agent_request demo_server ''u1''
           (demo_request None ''abc'' (Some (rpc_request ''tasks/list'' (JObj []) (JStr ''1'')))) of
      Inr (srv, JSONResponse body status) \<Rightarrow>
        body = JObj [(''error'', JStr ''Invalid or missing API key'')] \<and> status = 401
        \<and> \<not> is_error_envelope body
    | _ \<Rightarrow> False)
   \<and> (case handle_agent_request demo_server ''u1''
           (demo_request (Some ''secret'') ''nobody'' (Some (rpc_request ''tasks/list'' (JObj []) (JStr ''1'')))) of
      Inr (srv, JSONResponse body status) \<Rightarrow>
        body = JObj [(''error'', JStr ''Agent with ID nobody not found'')] \<and> status = 404
        \<and> \<not> is_error_envelope body
    | _ \<Rightarrow> False)"
  by (simp add: handle_agent_request_def verify_api_key_def get_agent_def is_error_envelope_def demo_defs)

end
